theory Spec2Isabelle
  imports Complex_Main
begin

section \<open>The eGFR / CrCl calculator: a shallow embedding of egfr.py\<close>

text \<open>
  The module computes an estimated glomerular filtration rate (or a creatinine
  clearance) with one of four published equations, classifies it into a KDIGO stage and
  assembles a result record.

  Modelling decisions, valid for every definition below.
  \<^item> A Python \<open>float\<close> is idealised as a \<open>real\<close>: no rounding, no NaN and no infinity.
    The numeric results are the exact values the floating-point results approximate.
    The functions named after the source take every real for a float; the functions
    with the suffix \<open>_ranged\<close> are the same code with the range of a double, which
    decides whether a call returns where the numbers are extreme.
  \<^item> A Python \<open>int\<close> is an \<open>int\<close>; mixed arithmetic converts it with \<open>real_of_int\<close>.
  \<^item> \<open>Sex\<close>, \<open>ScrUnit\<close> and \<open>Method\<close> are \<open>Literal\<close> aliases of \<open>str\<close>: the values are
    strings at run time and the code compares them with \<open>==\<close>, so they are strings
    here. A character outside ASCII in a literal of the source is written as its UTF-8
    bytes.
  \<^item> \<open>raise\<close> becomes the left summand of a sum type. \<open>ValueError\<close> carries its
    message, since the messages tell the raise sites apart.
\<close>

subsection \<open>Failures and float operators\<close>

datatype failure = ValueError string | ZeroDivisionError | OverflowError | ComplexResult

text \<open>
  Sequencing of fallible steps: the first failure is the result, as with a propagating
  exception.
\<close>

definition and_then :: "failure + 'a \<Rightarrow> ('a \<Rightarrow> failure + 'b) \<Rightarrow> failure + 'b" where
  "and_then r k = (case r of Inl e \<Rightarrow> Inl e | Inr v \<Rightarrow> k v)"

text \<open>
  Python's \<open>x ** y\<close> on floats. A zero base with a negative exponent raises
  \<open>ZeroDivisionError\<close>. A negative base with a non-integral exponent does not raise: the
  operator returns a \<open>complex\<close>; the model stops there with \<open>ComplexResult\<close>, which is
  therefore an outcome and not an exception. Otherwise the result is the real power.
\<close>

definition float_pow :: "real \<Rightarrow> real \<Rightarrow> failure + real" where
  "float_pow x y =
     (if x = 0 \<and> y < 0 then Inl ZeroDivisionError
      else if x < 0 \<and> y \<notin> \<int> then Inl ComplexResult
      else Inr (if 0 < x then x powr y
                else if y = 0 then 1
                else if x = 0 then 0
                else x powi \<lfloor>y\<rfloor>))"

text \<open>Python's \<open>x / y\<close> on floats raises \<open>ZeroDivisionError\<close> on a zero divisor.\<close>

definition float_div :: "real \<Rightarrow> real \<Rightarrow> failure + real" where
  "float_div x y = (if y = 0 then Inl ZeroDivisionError else Inr (x / y))"

subsection \<open>The range of the double format\<close>

text \<open>
  The definitions above treat every real as a float. The arithmetic of the program
  leaves that picture in three places that change which statement raises, and the
  definitions of this subsection and the \<open>_ranged\<close> functions below keep them:
  \<^item> a Python \<open>int\<close> that is too large for a double does not convert: \<open>float ** int\<close>,
    \<open>int ** float\<close> and \<open>float - int\<close> raise \<open>OverflowError\<close>;
  \<^item> \<open>**\<close> raises \<open>OverflowError\<close> when its result is too large for a double;
  \<^item> a quotient or a power too small for a double is zero, and a zero creatinine makes
    each equation divide by zero.
  The largest double is \<open>2^1024 - 2^971\<close>: a real of magnitude \<open>2^1024 - 2^970\<close> or more
  rounds to no finite double. The least positive double is \<open>2^-1074\<close>: a real of magnitude
  \<open>2^-1075\<close> or less rounds to zero. Rounding inside the range stays idealised, and so does
  the overflow of a product or a quotient, which gives an infinity without raising and
  changes no branch of this program.
\<close>

definition float_max_bound :: real where
  "float_max_bound = 2 ^ 1024 - 2 ^ 970"

definition float_min_bound :: real where
  "float_min_bound = 1 / 2 ^ 1075"

definition underflow :: "real \<Rightarrow> real" where
  "underflow x = (if \<bar>x\<bar> \<le> float_min_bound then 0 else x)"

definition int_to_float :: "int \<Rightarrow> failure + real" where
  "int_to_float n =
     (if float_max_bound \<le> \<bar>real_of_int n\<bar> then Inl OverflowError
      else Inr (real_of_int n))"

definition float_pow_ranged :: "real \<Rightarrow> real \<Rightarrow> failure + real" where
  "float_pow_ranged x y =
     and_then (float_pow x y) (\<lambda>p.
       if float_max_bound \<le> \<bar>p\<bar> then Inl OverflowError else Inr (underflow p))"

definition float_div_ranged :: "real \<Rightarrow> real \<Rightarrow> failure + real" where
  "float_div_ranged x y = and_then (float_div x y) (\<lambda>q. Inr (underflow q))"

subsection \<open>String literals of the source\<close>

text \<open>The messages of the \<open>ValueError\<close>s, in the order of their raise sites.\<close>

definition msg_creatinine :: string where
  "msg_creatinine =
     ''Creatinine ph'' @ [CHR 0xE1, CHR 0xBA, CHR 0xA3] @ ''i > 0.''"

definition msg_ckd_epi_2021_adult :: string where
  "msg_ckd_epi_2021_adult =
     ''CKD-EPI 2021: '' @ [CHR 0xC3, CHR 0xA1] @ ''p d'' @ [CHR 0xE1, CHR 0xBB, CHR 0xA5] @ ''ng cho ng'' @ [CHR 0xC6, CHR 0xB0, CHR 0xE1, CHR 0xBB, CHR 0x9D] @ ''i l'' @ [CHR 0xE1, CHR 0xBB, CHR 0x9B] @ ''n (>=18 tu'' @ [CHR 0xE1, CHR 0xBB, CHR 0x95] @ ''i).''"

definition msg_ckd_epi_2009_adult :: string where
  "msg_ckd_epi_2009_adult =
     ''CKD-EPI 2009: '' @ [CHR 0xC3, CHR 0xA1] @ ''p d'' @ [CHR 0xE1, CHR 0xBB, CHR 0xA5] @ ''ng cho ng'' @ [CHR 0xC6, CHR 0xB0, CHR 0xE1, CHR 0xBB, CHR 0x9D] @ ''i l'' @ [CHR 0xE1, CHR 0xBB, CHR 0x9B] @ ''n (>=18 tu'' @ [CHR 0xE1, CHR 0xBB, CHR 0x95] @ ''i).''"

definition msg_mdrd_adult :: string where
  "msg_mdrd_adult =
     ''MDRD: '' @ [CHR 0xC3, CHR 0xA1] @ ''p d'' @ [CHR 0xE1, CHR 0xBB, CHR 0xA5] @ ''ng cho ng'' @ [CHR 0xC6, CHR 0xB0, CHR 0xE1, CHR 0xBB, CHR 0x9D] @ ''i l'' @ [CHR 0xE1, CHR 0xBB, CHR 0x9B] @ ''n (>=18 tu'' @ [CHR 0xE1, CHR 0xBB, CHR 0x95] @ ''i).''"

definition msg_cockcroft_gault_adult :: string where
  "msg_cockcroft_gault_adult =
     ''Cockcroft'' @ [CHR 0xE2, CHR 0x80, CHR 0x93] @ ''Gault: th'' @ [CHR 0xC6, CHR 0xB0, CHR 0xE1, CHR 0xBB, CHR 0x9D] @ ''ng d'' @ [CHR 0xC3, CHR 0xB9] @ ''ng cho ng'' @ [CHR 0xC6, CHR 0xB0, CHR 0xE1, CHR 0xBB, CHR 0x9D] @ ''i l'' @ [CHR 0xE1, CHR 0xBB, CHR 0x9B] @ ''n (>=18 tu'' @ [CHR 0xE1, CHR 0xBB, CHR 0x95] @ ''i).''"

definition msg_weight_positive :: string where
  "msg_weight_positive =
     ''C'' @ [CHR 0xC3, CHR 0xA2] @ ''n n'' @ [CHR 0xE1, CHR 0xBA, CHR 0xB7] @ ''ng ph'' @ [CHR 0xE1, CHR 0xBA, CHR 0xA3] @ ''i > 0.''"

definition msg_weight_required :: string where
  "msg_weight_required =
     ''Cockcroft'' @ [CHR 0xE2, CHR 0x80, CHR 0x93] @ ''Gault c'' @ [CHR 0xE1, CHR 0xBA, CHR 0xA7] @ ''n nh'' @ [CHR 0xE1, CHR 0xBA, CHR 0xAD] @ ''p c'' @ [CHR 0xC3, CHR 0xA2] @ ''n n'' @ [CHR 0xE1, CHR 0xBA, CHR 0xB7] @ ''ng.''"

definition msg_invalid_method :: string where
  "msg_invalid_method =
     ''Ph'' @ [CHR 0xC6, CHR 0xB0, CHR 0xC6, CHR 0xA1] @ ''ng ph'' @ [CHR 0xC3, CHR 0xA1] @ ''p kh'' @ [CHR 0xC3, CHR 0xB4] @ ''ng h'' @ [CHR 0xE1, CHR 0xBB, CHR 0xA3] @ ''p l'' @ [CHR 0xE1, CHR 0xBB, CHR 0x87] @ ''.''"

text \<open>The stage descriptions returned by \<open>gfr_stage_g1_g5\<close>.\<close>

definition text_G1 :: string where
  "text_G1 =
     ''B'' @ [CHR 0xC3, CHR 0xAC] @ ''nh th'' @ [CHR 0xC6, CHR 0xB0, CHR 0xE1, CHR 0xBB, CHR 0x9D] @ ''ng / cao ('' @ [CHR 0xE2, CHR 0x89, CHR 0xA5] @ ''90)''"

definition text_G2 :: string where
  "text_G2 =
     ''Gi'' @ [CHR 0xE1, CHR 0xBA, CHR 0xA3] @ ''m nh'' @ [CHR 0xE1, CHR 0xBA, CHR 0xB9] @ '' (60'' @ [CHR 0xE2, CHR 0x80, CHR 0x93] @ ''89)''"

definition text_G3a :: string where
  "text_G3a =
     ''Gi'' @ [CHR 0xE1, CHR 0xBA, CHR 0xA3] @ ''m nh'' @ [CHR 0xE1, CHR 0xBA, CHR 0xB9, CHR 0xE2, CHR 0x80, CHR 0x93] @ ''v'' @ [CHR 0xE1, CHR 0xBB, CHR 0xAB] @ ''a (45'' @ [CHR 0xE2, CHR 0x80, CHR 0x93] @ ''59)''"

definition text_G3b :: string where
  "text_G3b =
     ''Gi'' @ [CHR 0xE1, CHR 0xBA, CHR 0xA3] @ ''m v'' @ [CHR 0xE1, CHR 0xBB, CHR 0xAB] @ ''a'' @ [CHR 0xE2, CHR 0x80, CHR 0x93] @ ''n'' @ [CHR 0xE1, CHR 0xBA, CHR 0xB7] @ ''ng (30'' @ [CHR 0xE2, CHR 0x80, CHR 0x93] @ ''44)''"

definition text_G4 :: string where
  "text_G4 =
     ''Gi'' @ [CHR 0xE1, CHR 0xBA, CHR 0xA3] @ ''m n'' @ [CHR 0xE1, CHR 0xBA, CHR 0xB7] @ ''ng (15'' @ [CHR 0xE2, CHR 0x80, CHR 0x93] @ ''29)''"

definition text_G5 :: string where
  "text_G5 =
     ''Suy th'' @ [CHR 0xE1, CHR 0xBA, CHR 0xAD] @ ''n giai '' @ [CHR 0xC4, CHR 0x91] @ ''o'' @ [CHR 0xE1, CHR 0xBA, CHR 0xA1] @ ''n cu'' @ [CHR 0xE1, CHR 0xBB, CHR 0x91] @ ''i (<15)''"

text \<open>
  The unit labels: \<open>unit_egfr\<close> is \<open>mL/min/1.73m\<close> followed by the superscript two (two
  bytes in UTF-8), \<open>unit_crcl\<close> is \<open>mL/min\<close>.
\<close>

definition unit_egfr :: string where
  "unit_egfr =
     ''mL/min/1.73m'' @ [CHR 0xC2, CHR 0xB2]"

definition unit_crcl :: string where
  "unit_crcl =
     ''mL/min''"

text \<open>The advisory notes, one per method.\<close>

definition notes_ckd_epi_2021 :: string where
  "notes_ckd_epi_2021 =
     ''eGFR chu'' @ [CHR 0xE1, CHR 0xBA, CHR 0xA9] @ ''n ho'' @ [CHR 0xC3, CHR 0xA1] @ '' 1.73m'' @ [CHR 0xC2, CHR 0xB2] @ '' (CKD-EPI 2021, kh'' @ [CHR 0xC3, CHR 0xB4] @ ''ng ch'' @ [CHR 0xE1, CHR 0xBB, CHR 0xA7] @ ''ng t'' @ [CHR 0xE1, CHR 0xBB, CHR 0x99] @ ''c).''"

definition notes_ckd_epi_2009 :: string where
  "notes_ckd_epi_2009 =
     ''eGFR chu'' @ [CHR 0xE1, CHR 0xBA, CHR 0xA9] @ ''n ho'' @ [CHR 0xC3, CHR 0xA1] @ '' 1.73m'' @ [CHR 0xC2, CHR 0xB2] @ '' (CKD-EPI 2009). C'' @ [CHR 0xC3, CHR 0xB3] @ '' tu'' @ [CHR 0xE1, CHR 0xBB, CHR 0xB3] @ '' ch'' @ [CHR 0xE1, CHR 0xBB, CHR 0x8D] @ ''n h'' @ [CHR 0xE1, CHR 0xBB, CHR 0x87] @ '' s'' @ [CHR 0xE1, CHR 0xBB, CHR 0x91] @ '' ng'' @ [CHR 0xC6, CHR 0xB0, CHR 0xE1, CHR 0xBB, CHR 0x9D] @ ''i da '' @ [CHR 0xC4, CHR 0x91] @ ''en.''"

definition notes_mdrd :: string where
  "notes_mdrd =
     ''eGFR chu'' @ [CHR 0xE1, CHR 0xBA, CHR 0xA9] @ ''n ho'' @ [CHR 0xC3, CHR 0xA1] @ '' 1.73m'' @ [CHR 0xC2, CHR 0xB2] @ '' (MDRD IDMS). C'' @ [CHR 0xC3, CHR 0xB3] @ '' tu'' @ [CHR 0xE1, CHR 0xBB, CHR 0xB3] @ '' ch'' @ [CHR 0xE1, CHR 0xBB, CHR 0x8D] @ ''n h'' @ [CHR 0xE1, CHR 0xBB, CHR 0x87] @ '' s'' @ [CHR 0xE1, CHR 0xBB, CHR 0x91] @ '' ng'' @ [CHR 0xC6, CHR 0xB0, CHR 0xE1, CHR 0xBB, CHR 0x9D] @ ''i da '' @ [CHR 0xC4, CHR 0x91] @ ''en.''"

definition notes_cockcroft_gault :: string where
  "notes_cockcroft_gault =
     ''CrCl (Cockcroft'' @ [CHR 0xE2, CHR 0x80, CHR 0x93] @ ''Gault) KH'' @ [CHR 0xC3, CHR 0x94] @ ''NG chu'' @ [CHR 0xE1, CHR 0xBA, CHR 0xA9] @ ''n ho'' @ [CHR 0xC3, CHR 0xA1] @ '' 1.73m'' @ [CHR 0xC2, CHR 0xB2] @ ''; th'' @ [CHR 0xC6, CHR 0xB0, CHR 0xE1, CHR 0xBB, CHR 0x9D] @ ''ng d'' @ [CHR 0xC3, CHR 0xB9] @ ''ng ch'' @ [CHR 0xE1, CHR 0xBB, CHR 0x89] @ ''nh li'' @ [CHR 0xE1, CHR 0xBB, CHR 0x81] @ ''u thu'' @ [CHR 0xE1, CHR 0xBB, CHR 0x91] @ ''c.''"

subsection \<open>Unit conversion\<close>

text \<open>
  \<^verbatim>\<open>
  def scr_to_mgdl(scr_value, unit):
      if scr_value <= 0:
          raise ValueError(...)
      if unit == "umol/L":
          return scr_value / 88.4
      return scr_value
  \<close>
\<close>

definition scr_to_mgdl :: "real \<Rightarrow> string \<Rightarrow> failure + real" where
  "scr_to_mgdl scr_value unit =
     (if scr_value \<le> 0 then Inl (ValueError msg_creatinine)
      else if unit = ''umol/L'' then Inr (scr_value / 88.4)
      else Inr scr_value)"

subsection \<open>Stage classification\<close>

text \<open>The thresholds are tested top-down; the first that holds decides.\<close>

definition gfr_stage_g1_g5 :: "real \<Rightarrow> string \<times> string" where
  "gfr_stage_g1_g5 gfr =
     (if gfr \<ge> 90 then (''G1'', text_G1)
      else if gfr \<ge> 60 then (''G2'', text_G2)
      else if gfr \<ge> 45 then (''G3a'', text_G3a)
      else if gfr \<ge> 30 then (''G3b'', text_G3b)
      else if gfr \<ge> 15 then (''G4'', text_G4)
      else (''G5'', text_G5))"

subsection \<open>The four equations\<close>

text \<open>
  Each equation checks the age first. The products are evaluated left to right, so the
  powers are computed in the order in which they are written.
\<close>

definition egfr_ckd_epi_2021 :: "real \<Rightarrow> int \<Rightarrow> string \<Rightarrow> failure + real" where
  "egfr_ckd_epi_2021 scr_mgdl age sex =
     (if age < 18 then Inl (ValueError msg_ckd_epi_2021_adult)
      else
        let kappa = (if sex = ''female'' then 0.7 else 0.9);
            alpha = (if sex = ''female'' then - 0.241 else - 0.302);
            female_factor = (if sex = ''female'' then 1.012 else 1.0);
            ratio = scr_mgdl / kappa;
            mn = min ratio 1.0;
            mx = max ratio 1.0
        in and_then (float_pow mn alpha) (\<lambda>p1.
           and_then (float_pow mx (- 1.200)) (\<lambda>p2.
           and_then (float_pow 0.9938 (real_of_int age)) (\<lambda>p3.
           Inr (142.0 * p1 * p2 * p3 * female_factor)))))"

definition egfr_ckd_epi_2009 :: "real \<Rightarrow> int \<Rightarrow> string \<Rightarrow> bool \<Rightarrow> failure + real" where
  "egfr_ckd_epi_2009 scr_mgdl age sex black =
     (if age < 18 then Inl (ValueError msg_ckd_epi_2009_adult)
      else
        let kappa = (if sex = ''female'' then 0.7 else 0.9);
            alpha = (if sex = ''female'' then - 0.329 else - 0.411);
            ratio = scr_mgdl / kappa;
            mn = min ratio 1.0;
            mx = max ratio 1.0;
            female_factor = (if sex = ''female'' then 1.018 else 1.0);
            black_factor = (if black then 1.159 else 1.0)
        in and_then (float_pow mn alpha) (\<lambda>p1.
           and_then (float_pow mx (- 1.209)) (\<lambda>p2.
           and_then (float_pow 0.993 (real_of_int age)) (\<lambda>p3.
           Inr (141.0 * p1 * p2 * p3 * female_factor * black_factor)))))"

definition egfr_mdrd_idms :: "real \<Rightarrow> int \<Rightarrow> string \<Rightarrow> bool \<Rightarrow> failure + real" where
  "egfr_mdrd_idms scr_mgdl age sex black =
     (if age < 18 then Inl (ValueError msg_mdrd_adult)
      else
        let female_factor = (if sex = ''female'' then 0.742 else 1.0);
            black_factor = (if black then 1.212 else 1.0)
        in and_then (float_pow scr_mgdl (- 1.154)) (\<lambda>p1.
           and_then (float_pow (real_of_int age) (- 0.203)) (\<lambda>p2.
           Inr (175.0 * p1 * p2 * female_factor * black_factor))))"

definition crcl_cockcroft_gault :: "real \<Rightarrow> int \<Rightarrow> string \<Rightarrow> real \<Rightarrow> failure + real" where
  "crcl_cockcroft_gault scr_mgdl age sex weight_kg =
     (if age < 18 then Inl (ValueError msg_cockcroft_gault_adult)
      else if weight_kg \<le> 0 then Inl (ValueError msg_weight_positive)
      else and_then (float_div ((140.0 - real_of_int age) * weight_kg) (72.0 * scr_mgdl)) (\<lambda>crcl.
           if sex = ''female'' then Inr (crcl * 0.85) else Inr crcl))"

subsection \<open>The conversion and the equations with the range of the double format\<close>

text \<open>
  The same five functions, statement for statement, with the ranged operators. An \<open>int\<close>
  operand is converted where the source's operator converts it: before the power in
  \<open>0.9938 ** age\<close> and \<open>age ** -0.203\<close>, and in \<open>140.0 - age\<close>, the first operation of the
  Cockcroft-Gault quotient.
\<close>

definition scr_to_mgdl_ranged :: "real \<Rightarrow> string \<Rightarrow> failure + real" where
  "scr_to_mgdl_ranged scr_value unit =
     (if scr_value \<le> 0 then Inl (ValueError msg_creatinine)
      else if unit = ''umol/L'' then float_div_ranged scr_value 88.4
      else Inr scr_value)"

definition egfr_ckd_epi_2021_ranged :: "real \<Rightarrow> int \<Rightarrow> string \<Rightarrow> failure + real" where
  "egfr_ckd_epi_2021_ranged scr_mgdl age sex =
     (if age < 18 then Inl (ValueError msg_ckd_epi_2021_adult)
      else
        let kappa = (if sex = ''female'' then 0.7 else 0.9);
            alpha = (if sex = ''female'' then - 0.241 else - 0.302);
            female_factor = (if sex = ''female'' then 1.012 else 1.0)
        in and_then (float_div_ranged scr_mgdl kappa) (\<lambda>ratio.
           let mn = min ratio 1.0;
               mx = max ratio 1.0
           in and_then (float_pow_ranged mn alpha) (\<lambda>p1.
              and_then (float_pow_ranged mx (- 1.200)) (\<lambda>p2.
              and_then (and_then (int_to_float age) (float_pow_ranged 0.9938)) (\<lambda>p3.
              Inr (142.0 * p1 * p2 * p3 * female_factor))))))"

definition egfr_ckd_epi_2009_ranged ::
  "real \<Rightarrow> int \<Rightarrow> string \<Rightarrow> bool \<Rightarrow> failure + real" where
  "egfr_ckd_epi_2009_ranged scr_mgdl age sex black =
     (if age < 18 then Inl (ValueError msg_ckd_epi_2009_adult)
      else
        let kappa = (if sex = ''female'' then 0.7 else 0.9);
            alpha = (if sex = ''female'' then - 0.329 else - 0.411)
        in and_then (float_div_ranged scr_mgdl kappa) (\<lambda>ratio.
           let mn = min ratio 1.0;
               mx = max ratio 1.0;
               female_factor = (if sex = ''female'' then 1.018 else 1.0);
               black_factor = (if black then 1.159 else 1.0)
           in and_then (float_pow_ranged mn alpha) (\<lambda>p1.
              and_then (float_pow_ranged mx (- 1.209)) (\<lambda>p2.
              and_then (and_then (int_to_float age) (float_pow_ranged 0.993)) (\<lambda>p3.
              Inr (141.0 * p1 * p2 * p3 * female_factor * black_factor))))))"

definition egfr_mdrd_idms_ranged ::
  "real \<Rightarrow> int \<Rightarrow> string \<Rightarrow> bool \<Rightarrow> failure + real" where
  "egfr_mdrd_idms_ranged scr_mgdl age sex black =
     (if age < 18 then Inl (ValueError msg_mdrd_adult)
      else
        let female_factor = (if sex = ''female'' then 0.742 else 1.0);
            black_factor = (if black then 1.212 else 1.0)
        in and_then (float_pow_ranged scr_mgdl (- 1.154)) (\<lambda>p1.
           and_then (and_then (int_to_float age) (\<lambda>a. float_pow_ranged a (- 0.203))) (\<lambda>p2.
           Inr (175.0 * p1 * p2 * female_factor * black_factor))))"

definition crcl_cockcroft_gault_ranged ::
  "real \<Rightarrow> int \<Rightarrow> string \<Rightarrow> real \<Rightarrow> failure + real" where
  "crcl_cockcroft_gault_ranged scr_mgdl age sex weight_kg =
     (if age < 18 then Inl (ValueError msg_cockcroft_gault_adult)
      else if weight_kg \<le> 0 then Inl (ValueError msg_weight_positive)
      else and_then (int_to_float age) (\<lambda>a.
           and_then (float_div_ranged ((140.0 - a) * weight_kg) (72.0 * scr_mgdl)) (\<lambda>crcl.
           if sex = ''female'' then Inr (crcl * 0.85) else Inr crcl)))"

subsection \<open>The result record and its assembly\<close>

text \<open>
  The dataclass \<open>KidneyResult\<close>. The fields \<open>method\<close>, \<open>value\<close> and \<open>notes\<close> carry a
  prime, since the plain names are keywords of Isabelle. \<open>black\<close> and \<open>weight_kg\<close> are
  \<open>Optional\<close>.
\<close>

record KidneyResult =
  timestamp :: string
  method' :: string
  age :: int
  sex :: string
  scr_value :: real
  scr_unit :: string
  scr_mgdl :: real
  black :: "bool option"
  weight_kg :: "real option"
  value' :: real
  value_unit :: string
  stage :: string
  stage_text :: string
  notes' :: string

text \<open>
  \<open>compute_kidney_function\<close>. The one effect of the source, reading the wall clock for
  the timestamp, is made a parameter: \<open>now\<close> is the formatted time of the call. The
  remaining parameters are bound by a \<open>\<lambda>\<close> so that they keep the names of the source,
  which are also the names of the record's fields. Each branch of the dispatch produces
  the seven values that the source assigns (\<open>val\<close>, \<open>unit\<close>, \<open>notes\<close>, \<open>stage\<close>,
  \<open>stage_text\<close>, \<open>blk\<close>, \<open>w\<close>); the record is built after the dispatch, as in the source.
\<close>

definition compute_kidney_function ::
  "string \<Rightarrow> string \<Rightarrow> int \<Rightarrow> string \<Rightarrow> real \<Rightarrow> string \<Rightarrow> bool \<Rightarrow> real option
     \<Rightarrow> failure + KidneyResult" where
  "compute_kidney_function now =
     (\<lambda>method age sex scr_value scr_unit black weight_kg.
        and_then (scr_to_mgdl scr_value scr_unit) (\<lambda>scr_mgdl.
        and_then
          (if method = ''CKD-EPI 2021'' then
             and_then (egfr_ckd_epi_2021 scr_mgdl age sex) (\<lambda>val.
               let (stage, stage_text) = gfr_stage_g1_g5 val
               in Inr (val, unit_egfr, notes_ckd_epi_2021, stage, stage_text, None, None))
           else if method = ''CKD-EPI 2009'' then
             and_then (egfr_ckd_epi_2009 scr_mgdl age sex black) (\<lambda>val.
               let (stage, stage_text) = gfr_stage_g1_g5 val
               in Inr (val, unit_egfr, notes_ckd_epi_2009, stage, stage_text, Some black, None))
           else if method = ''MDRD (IDMS)'' then
             and_then (egfr_mdrd_idms scr_mgdl age sex black) (\<lambda>val.
               let (stage, stage_text) = gfr_stage_g1_g5 val
               in Inr (val, unit_egfr, notes_mdrd, stage, stage_text, Some black, None))
           else if method = ''Cockcroft-Gault'' then
             (case weight_kg of
                None \<Rightarrow> Inl (ValueError msg_weight_required)
              | Some wk \<Rightarrow>
                  and_then (crcl_cockcroft_gault scr_mgdl age sex wk) (\<lambda>val.
                    let (stage, stage_text) = gfr_stage_g1_g5 val
                    in Inr (val, unit_crcl, notes_cockcroft_gault, stage, stage_text,
                            None, Some wk)))
           else Inl (ValueError msg_invalid_method))
          (\<lambda>(val, unit, notes, stage, stage_text, blk, w).
             Inr \<lparr>timestamp = now, method' = method, age = age, sex = sex,
                  scr_value = scr_value, scr_unit = scr_unit, scr_mgdl = scr_mgdl,
                  black = blk, weight_kg = w, value' = val, value_unit = unit,
                  stage = stage, stage_text = stage_text, notes' = notes\<rparr>)))"

text \<open>
  The assembler over the ranged conversion and equations; the dispatch and the record
  are those of \<open>compute_kidney_function\<close>.
\<close>

definition compute_kidney_function_ranged ::
  "string \<Rightarrow> string \<Rightarrow> int \<Rightarrow> string \<Rightarrow> real \<Rightarrow> string \<Rightarrow> bool \<Rightarrow> real option
     \<Rightarrow> failure + KidneyResult" where
  "compute_kidney_function_ranged now =
     (\<lambda>method age sex scr_value scr_unit black weight_kg.
        and_then (scr_to_mgdl_ranged scr_value scr_unit) (\<lambda>scr_mgdl.
        and_then
          (if method = ''CKD-EPI 2021'' then
             and_then (egfr_ckd_epi_2021_ranged scr_mgdl age sex) (\<lambda>val.
               let (stage, stage_text) = gfr_stage_g1_g5 val
               in Inr (val, unit_egfr, notes_ckd_epi_2021, stage, stage_text, None, None))
           else if method = ''CKD-EPI 2009'' then
             and_then (egfr_ckd_epi_2009_ranged scr_mgdl age sex black) (\<lambda>val.
               let (stage, stage_text) = gfr_stage_g1_g5 val
               in Inr (val, unit_egfr, notes_ckd_epi_2009, stage, stage_text, Some black, None))
           else if method = ''MDRD (IDMS)'' then
             and_then (egfr_mdrd_idms_ranged scr_mgdl age sex black) (\<lambda>val.
               let (stage, stage_text) = gfr_stage_g1_g5 val
               in Inr (val, unit_egfr, notes_mdrd, stage, stage_text, Some black, None))
           else if method = ''Cockcroft-Gault'' then
             (case weight_kg of
                None \<Rightarrow> Inl (ValueError msg_weight_required)
              | Some wk \<Rightarrow>
                  and_then (crcl_cockcroft_gault_ranged scr_mgdl age sex wk) (\<lambda>val.
                    let (stage, stage_text) = gfr_stage_g1_g5 val
                    in Inr (val, unit_crcl, notes_cockcroft_gault, stage, stage_text,
                            None, Some wk)))
           else Inl (ValueError msg_invalid_method))
          (\<lambda>(val, unit, notes, stage, stage_text, blk, w).
             Inr \<lparr>timestamp = now, method' = method, age = age, sex = sex,
                  scr_value = scr_value, scr_unit = scr_unit, scr_mgdl = scr_mgdl,
                  black = blk, weight_kg = w, value' = val, value_unit = unit,
                  stage = stage, stage_text = stage_text, notes' = notes\<rparr>)))"

text \<open>
  The outcomes that the arithmetic of a call can have once its arguments are accepted: a
  value, or one of the two arithmetic errors.
\<close>

definition arithmetic_outcome :: "failure + 'a \<Rightarrow> bool" where
  "arithmetic_outcome r =
     (case r of
        Inr x \<Rightarrow> True
      | Inl ZeroDivisionError \<Rightarrow> True
      | Inl OverflowError \<Rightarrow> True
      | Inl e \<Rightarrow> False)"

section \<open>Auxiliary facts\<close>

subsection \<open>Sequencing and operators\<close>

lemma and_then_Inl [simp]: "and_then (Inl e) k = Inl e"
  by (simp add: and_then_def)

lemma and_then_Inr [simp]: "and_then (Inr v) k = k v"
  by (simp add: and_then_def)

lemma and_then_eq_Inr:
  "and_then x k = Inr y \<longleftrightarrow> (\<exists>v. x = Inr v \<and> k v = Inr y)"
  by (cases x) simp_all

lemma float_pow_pos: "0 < x \<Longrightarrow> float_pow x y = Inr (x powr y)"
  by (simp add: float_pow_def)

subsection \<open>Unit conversion\<close>

lemma scr_to_mgdl_nonpos: "v \<le> 0 \<Longrightarrow> scr_to_mgdl v u = Inl (ValueError msg_creatinine)"
  by (simp add: scr_to_mgdl_def)

lemma scr_to_mgdl_pos:
  "0 < v \<Longrightarrow> scr_to_mgdl v u = Inr (if u = ''umol/L'' then v / 88.4 else v)"
  by (simp add: scr_to_mgdl_def)

subsection \<open>The equations: the age check, then the closed form\<close>

lemma egfr_ckd_epi_2021_minor:
  "a < 18 \<Longrightarrow> egfr_ckd_epi_2021 c a s = Inl (ValueError msg_ckd_epi_2021_adult)"
  by (simp add: egfr_ckd_epi_2021_def)

lemma egfr_ckd_epi_2009_minor:
  "a < 18 \<Longrightarrow> egfr_ckd_epi_2009 c a s b = Inl (ValueError msg_ckd_epi_2009_adult)"
  by (simp add: egfr_ckd_epi_2009_def)

lemma egfr_mdrd_idms_minor:
  "a < 18 \<Longrightarrow> egfr_mdrd_idms c a s b = Inl (ValueError msg_mdrd_adult)"
  by (simp add: egfr_mdrd_idms_def)

lemma crcl_cockcroft_gault_minor:
  "a < 18 \<Longrightarrow> crcl_cockcroft_gault c a s k = Inl (ValueError msg_cockcroft_gault_adult)"
  by (simp add: crcl_cockcroft_gault_def)

lemma crcl_cockcroft_gault_weight:
  "18 \<le> a \<Longrightarrow> k \<le> 0 \<Longrightarrow> crcl_cockcroft_gault c a s k = Inl (ValueError msg_weight_positive)"
  by (simp add: crcl_cockcroft_gault_def)

lemma egfr_ckd_epi_2021_adult:
  assumes "18 \<le> a" and "0 < c"
  shows "egfr_ckd_epi_2021 c a s =
           Inr (142 * (min (c / (if s = ''female'' then 0.7 else 0.9)) 1) powr
                        (if s = ''female'' then - 0.241 else - 0.302)
                    * (max (c / (if s = ''female'' then 0.7 else 0.9)) 1) powr (- 1.200)
                    * 0.9938 powi a * (if s = ''female'' then 1.012 else 1.0))"
proof -
  define k :: real where "k = (if s = ''female'' then 0.7 else 0.9)"
  have "0 < k" by (simp add: k_def)
  with assms have "0 < c / k" by simp
  then have mn: "0 < min (c / k) 1" by simp
  have mx: "0 < max (c / k) 1" by simp
  show ?thesis
    using assms(1) mn mx unfolding egfr_ckd_epi_2021_def k_def [symmetric] Let_def
    by (simp add: float_pow_pos powr_real_of_int' k_def)
qed

lemma egfr_ckd_epi_2009_adult:
  assumes "18 \<le> a" and "0 < c"
  shows "egfr_ckd_epi_2009 c a s b =
           Inr (141 * (min (c / (if s = ''female'' then 0.7 else 0.9)) 1) powr
                        (if s = ''female'' then - 0.329 else - 0.411)
                    * (max (c / (if s = ''female'' then 0.7 else 0.9)) 1) powr (- 1.209)
                    * 0.993 powi a * (if s = ''female'' then 1.018 else 1.0)
                    * (if b then 1.159 else 1.0))"
proof -
  define k :: real where "k = (if s = ''female'' then 0.7 else 0.9)"
  have "0 < k" by (simp add: k_def)
  with assms have "0 < c / k" by simp
  then have mn: "0 < min (c / k) 1" by simp
  have mx: "0 < max (c / k) 1" by simp
  show ?thesis
    using assms(1) mn mx unfolding egfr_ckd_epi_2009_def k_def [symmetric] Let_def
    by (simp add: float_pow_pos powr_real_of_int' k_def)
qed

lemma egfr_mdrd_idms_adult:
  assumes "18 \<le> a" and "0 < c"
  shows "egfr_mdrd_idms c a s b =
           Inr (175 * c powr (- 1.154) * (real_of_int a) powr (- 0.203)
                    * (if s = ''female'' then 0.742 else 1.0)
                    * (if b then 1.212 else 1.0))"
proof -
  from assms(1) have "0 < real_of_int a" by simp
  with assms show ?thesis
    unfolding egfr_mdrd_idms_def Let_def by (simp add: float_pow_pos)
qed

lemma crcl_cockcroft_gault_adult:
  assumes "18 \<le> a" and "0 < k" and "c \<noteq> 0"
  shows "crcl_cockcroft_gault c a s k =
           Inr (if s = ''female'' then ((140 - real_of_int a) * k) / (72 * c) * 0.85
                else ((140 - real_of_int a) * k) / (72 * c))"
  using assms by (simp add: crcl_cockcroft_gault_def float_div_def)

lemma formulas_return:
  assumes "18 \<le> a" and "0 < c"
  shows "\<exists>x. egfr_ckd_epi_2021 c a s = Inr x"
    and "\<exists>x. egfr_ckd_epi_2009 c a s b = Inr x"
    and "\<exists>x. egfr_mdrd_idms c a s b = Inr x"
    and "0 < k \<Longrightarrow> \<exists>x. crcl_cockcroft_gault c a s k = Inr x"
  using assms
  by (simp_all only: egfr_ckd_epi_2021_adult egfr_ckd_epi_2009_adult egfr_mdrd_idms_adult
        crcl_cockcroft_gault_adult) (simp_all add: crcl_cockcroft_gault_adult)

subsection \<open>The assembler, method by method\<close>

lemma compute_ckd_epi_2021:
  "compute_kidney_function now ''CKD-EPI 2021'' a s v u b w =
     and_then (scr_to_mgdl v u) (\<lambda>c.
     and_then (egfr_ckd_epi_2021 c a s) (\<lambda>x.
       Inr \<lparr>timestamp = now, method' = ''CKD-EPI 2021'', age = a, sex = s, scr_value = v,
            scr_unit = u, scr_mgdl = c, black = None, weight_kg = None, value' = x,
            value_unit = unit_egfr, stage = fst (gfr_stage_g1_g5 x),
            stage_text = snd (gfr_stage_g1_g5 x), notes' = notes_ckd_epi_2021\<rparr>))"
  unfolding compute_kidney_function_def
  by (simp add: and_then_def case_prod_beta split: sum.splits)

lemma compute_ckd_epi_2009:
  "compute_kidney_function now ''CKD-EPI 2009'' a s v u b w =
     and_then (scr_to_mgdl v u) (\<lambda>c.
     and_then (egfr_ckd_epi_2009 c a s b) (\<lambda>x.
       Inr \<lparr>timestamp = now, method' = ''CKD-EPI 2009'', age = a, sex = s, scr_value = v,
            scr_unit = u, scr_mgdl = c, black = Some b, weight_kg = None, value' = x,
            value_unit = unit_egfr, stage = fst (gfr_stage_g1_g5 x),
            stage_text = snd (gfr_stage_g1_g5 x), notes' = notes_ckd_epi_2009\<rparr>))"
  unfolding compute_kidney_function_def
  by (simp add: and_then_def case_prod_beta split: sum.splits)

lemma compute_mdrd_idms:
  "compute_kidney_function now ''MDRD (IDMS)'' a s v u b w =
     and_then (scr_to_mgdl v u) (\<lambda>c.
     and_then (egfr_mdrd_idms c a s b) (\<lambda>x.
       Inr \<lparr>timestamp = now, method' = ''MDRD (IDMS)'', age = a, sex = s, scr_value = v,
            scr_unit = u, scr_mgdl = c, black = Some b, weight_kg = None, value' = x,
            value_unit = unit_egfr, stage = fst (gfr_stage_g1_g5 x),
            stage_text = snd (gfr_stage_g1_g5 x), notes' = notes_mdrd\<rparr>))"
  unfolding compute_kidney_function_def
  by (simp add: and_then_def case_prod_beta split: sum.splits)

lemma compute_cockcroft_gault_weight:
  "compute_kidney_function now ''Cockcroft-Gault'' a s v u b (Some k) =
     and_then (scr_to_mgdl v u) (\<lambda>c.
     and_then (crcl_cockcroft_gault c a s k) (\<lambda>x.
       Inr \<lparr>timestamp = now, method' = ''Cockcroft-Gault'', age = a, sex = s, scr_value = v,
            scr_unit = u, scr_mgdl = c, black = None, weight_kg = Some k, value' = x,
            value_unit = unit_crcl, stage = fst (gfr_stage_g1_g5 x),
            stage_text = snd (gfr_stage_g1_g5 x), notes' = notes_cockcroft_gault\<rparr>))"
  unfolding compute_kidney_function_def
  by (simp add: and_then_def case_prod_beta split: sum.splits)

lemma compute_cockcroft_gault_no_weight:
  "compute_kidney_function now ''Cockcroft-Gault'' a s v u b None =
     and_then (scr_to_mgdl v u) (\<lambda>c. Inl (ValueError msg_weight_required))"
  unfolding compute_kidney_function_def
  by (simp add: and_then_def split: sum.splits)

lemma compute_unrecognized:
  assumes "m \<noteq> ''CKD-EPI 2021''" and "m \<noteq> ''CKD-EPI 2009''" and "m \<noteq> ''MDRD (IDMS)''"
    and "m \<noteq> ''Cockcroft-Gault''"
  shows "compute_kidney_function now m a s v u b w =
           and_then (scr_to_mgdl v u) (\<lambda>c. Inl (ValueError msg_invalid_method))"
  using assms unfolding compute_kidney_function_def
  by (simp add: and_then_def split: sum.splits)

lemma compute_nonpos:
  assumes "v \<le> 0"
  shows "compute_kidney_function now m a s v u b w = Inl (ValueError msg_creatinine)"
  using assms unfolding compute_kidney_function_def by (simp add: scr_to_mgdl_nonpos)

subsection \<open>The assembler: inversion, success and failure\<close>

lemma compute_Inr_cases:
  assumes "compute_kidney_function now m a s v u b w = Inr r"
  obtains c x where "scr_to_mgdl v u = Inr c"
    and "r = \<lparr>timestamp = now, method' = m, age = a, sex = s, scr_value = v, scr_unit = u,
              scr_mgdl = c,
              black = (if m = ''CKD-EPI 2009'' \<or> m = ''MDRD (IDMS)'' then Some b else None),
              weight_kg = (if m = ''Cockcroft-Gault'' then w else None),
              value' = x,
              value_unit = (if m = ''Cockcroft-Gault'' then unit_crcl else unit_egfr),
              stage = fst (gfr_stage_g1_g5 x), stage_text = snd (gfr_stage_g1_g5 x),
              notes' = (if m = ''CKD-EPI 2021'' then notes_ckd_epi_2021
                        else if m = ''CKD-EPI 2009'' then notes_ckd_epi_2009
                        else if m = ''MDRD (IDMS)'' then notes_mdrd
                        else notes_cockcroft_gault)\<rparr>"
    and "(m = ''CKD-EPI 2021'' \<and> egfr_ckd_epi_2021 c a s = Inr x)
         \<or> (m = ''CKD-EPI 2009'' \<and> egfr_ckd_epi_2009 c a s b = Inr x)
         \<or> (m = ''MDRD (IDMS)'' \<and> egfr_mdrd_idms c a s b = Inr x)
         \<or> (m = ''Cockcroft-Gault'' \<and> (\<exists>k. w = Some k \<and> crcl_cockcroft_gault c a s k = Inr x))"
proof -
  consider (ckd21) "m = ''CKD-EPI 2021''" | (ckd09) "m = ''CKD-EPI 2009''"
    | (mdrd) "m = ''MDRD (IDMS)''" | (cg) "m = ''Cockcroft-Gault''"
    | (other) "m \<noteq> ''CKD-EPI 2021''" "m \<noteq> ''CKD-EPI 2009''" "m \<noteq> ''MDRD (IDMS)''"
        "m \<noteq> ''Cockcroft-Gault''"
    by blast
  then show thesis
  proof cases
    case ckd21
    with assms obtain c x where "scr_to_mgdl v u = Inr c" "egfr_ckd_epi_2021 c a s = Inr x"
      and "r = \<lparr>timestamp = now, method' = ''CKD-EPI 2021'', age = a, sex = s, scr_value = v,
            scr_unit = u, scr_mgdl = c, black = None, weight_kg = None, value' = x,
            value_unit = unit_egfr, stage = fst (gfr_stage_g1_g5 x),
            stage_text = snd (gfr_stage_g1_g5 x), notes' = notes_ckd_epi_2021\<rparr>"
      by (auto simp: compute_ckd_epi_2021 and_then_eq_Inr)
    with ckd21 show thesis by (intro that [of c x]) simp_all
  next
    case ckd09
    with assms obtain c x where "scr_to_mgdl v u = Inr c" "egfr_ckd_epi_2009 c a s b = Inr x"
      and "r = \<lparr>timestamp = now, method' = ''CKD-EPI 2009'', age = a, sex = s, scr_value = v,
            scr_unit = u, scr_mgdl = c, black = Some b, weight_kg = None, value' = x,
            value_unit = unit_egfr, stage = fst (gfr_stage_g1_g5 x),
            stage_text = snd (gfr_stage_g1_g5 x), notes' = notes_ckd_epi_2009\<rparr>"
      by (auto simp: compute_ckd_epi_2009 and_then_eq_Inr)
    with ckd09 show thesis by (intro that [of c x]) simp_all
  next
    case mdrd
    with assms obtain c x where "scr_to_mgdl v u = Inr c" "egfr_mdrd_idms c a s b = Inr x"
      and "r = \<lparr>timestamp = now, method' = ''MDRD (IDMS)'', age = a, sex = s, scr_value = v,
            scr_unit = u, scr_mgdl = c, black = Some b, weight_kg = None, value' = x,
            value_unit = unit_egfr, stage = fst (gfr_stage_g1_g5 x),
            stage_text = snd (gfr_stage_g1_g5 x), notes' = notes_mdrd\<rparr>"
      by (auto simp: compute_mdrd_idms and_then_eq_Inr)
    with mdrd show thesis by (intro that [of c x]) simp_all
  next
    case cg
    show thesis
    proof (cases w)
      case None
      with assms cg show thesis
        by (simp add: compute_cockcroft_gault_no_weight and_then_eq_Inr)
    next
      case (Some k)
      with assms cg obtain c x where "scr_to_mgdl v u = Inr c"
        "crcl_cockcroft_gault c a s k = Inr x"
        and "r = \<lparr>timestamp = now, method' = ''Cockcroft-Gault'', age = a, sex = s,
              scr_value = v, scr_unit = u, scr_mgdl = c, black = None, weight_kg = Some k,
              value' = x, value_unit = unit_crcl, stage = fst (gfr_stage_g1_g5 x),
              stage_text = snd (gfr_stage_g1_g5 x), notes' = notes_cockcroft_gault\<rparr>"
        by (auto simp: compute_cockcroft_gault_weight and_then_eq_Inr)
      with cg Some show thesis by (intro that [of c x]) simp_all
    qed
  next
    case other
    with assms show thesis
      by (simp add: compute_unrecognized and_then_eq_Inr)
  qed
qed

lemma compute_succeeds:
  assumes "0 < v" and "18 \<le> a"
    and "m = ''CKD-EPI 2021'' \<or> m = ''CKD-EPI 2009'' \<or> m = ''MDRD (IDMS)''
         \<or> (m = ''Cockcroft-Gault'' \<and> (\<exists>k. w = Some k \<and> 0 < k))"
  shows "\<exists>r. compute_kidney_function now m a s v u b w = Inr r"
proof -
  define c where "c = (if u = ''umol/L'' then v / 88.4 else v)"
  have c: "scr_to_mgdl v u = Inr c" and "0 < c"
    using assms(1) by (simp_all add: scr_to_mgdl_pos c_def)
  note ret = formulas_return [OF assms(2) \<open>0 < c\<close>]
  from assms(3) show ?thesis
  proof (elim disjE conjE exE)
    assume "m = ''CKD-EPI 2021''"
    with c ret(1) [of s] show ?thesis by (auto simp: compute_ckd_epi_2021)
  next
    assume "m = ''CKD-EPI 2009''"
    with c ret(2) [of s b] show ?thesis by (auto simp: compute_ckd_epi_2009)
  next
    assume "m = ''MDRD (IDMS)''"
    with c ret(3) [of s b] show ?thesis by (auto simp: compute_mdrd_idms)
  next
    fix k assume "m = ''Cockcroft-Gault''" "w = Some k" "0 < k"
    with c ret(4) [of k s] show ?thesis by (auto simp: compute_cockcroft_gault_weight)
  qed
qed

text \<open>The inputs that return and the inputs that fail are complementary.\<close>

lemma compute_outcome_partition:
  fixes w :: "real option" and v :: real and a :: int
  shows "(0 < v \<and> 18 \<le> a
      \<and> m \<in> {''CKD-EPI 2021'', ''CKD-EPI 2009'', ''MDRD (IDMS)'', ''Cockcroft-Gault''}
      \<and> (m = ''Cockcroft-Gault'' \<longrightarrow> (\<exists>k. w = Some k \<and> 0 < k)))
    \<longleftrightarrow> \<not> (v \<le> 0 \<or> a < (18::int)
      \<or> (m = ''Cockcroft-Gault'' \<and> (w = None \<or> (\<exists>k. w = Some k \<and> k \<le> 0)))
      \<or> m \<notin> {''CKD-EPI 2021'', ''CKD-EPI 2009'', ''MDRD (IDMS)'', ''Cockcroft-Gault''})"
proof -
  define isCG where "isCG \<longleftrightarrow> m = ''Cockcroft-Gault''"
  define known where
    "known \<longleftrightarrow> m \<in> {''CKD-EPI 2021'', ''CKD-EPI 2009'', ''MDRD (IDMS)'', ''Cockcroft-Gault''}"
  have w: "(\<exists>k. w = Some k \<and> 0 < k) \<longleftrightarrow> \<not> (w = None \<or> (\<exists>k. w = Some k \<and> k \<le> 0))"
    by (cases w) (simp_all add: not_le)
  define okw where "okw \<longleftrightarrow> (\<exists>k. w = Some k \<and> 0 < k)"
  define badw where "badw \<longleftrightarrow> (w = None \<or> (\<exists>k. w = Some k \<and> k \<le> 0))"
  have w': "okw \<longleftrightarrow> \<not> badw" unfolding okw_def badw_def by (rule w)
  have v: "0 < v \<longleftrightarrow> \<not> v \<le> 0" and a: "18 \<le> a \<longleftrightarrow> \<not> a < 18" by (simp_all add: not_le not_less)
  have "(0 < v \<and> 18 \<le> a \<and> known \<and> (isCG \<longrightarrow> okw))
    \<longleftrightarrow> \<not> (v \<le> 0 \<or> a < 18 \<or> (isCG \<and> badw) \<or> \<not> known)"
    unfolding w' v a by blast
  then show ?thesis unfolding isCG_def known_def okw_def badw_def .
qed

text \<open>The fields of a returned record, and the equation that produced its value.\<close>

lemma compute_fields:
  assumes "compute_kidney_function now m a s v u b w = Inr r"
  shows "timestamp r = now" and "method' r = m" and "age r = a" and "sex r = s"
    and "scr_value r = v" and "scr_unit r = u" and "scr_to_mgdl v u = Inr (scr_mgdl r)"
    and "black r = (if m = ''CKD-EPI 2009'' \<or> m = ''MDRD (IDMS)'' then Some b else None)"
    and "weight_kg r = (if m = ''Cockcroft-Gault'' then w else None)"
    and "value_unit r = (if m = ''Cockcroft-Gault'' then unit_crcl else unit_egfr)"
    and "stage r = fst (gfr_stage_g1_g5 (value' r))"
    and "stage_text r = snd (gfr_stage_g1_g5 (value' r))"
proof -
  from assms obtain c x where c: "scr_to_mgdl v u = Inr c"
    and r: "r = \<lparr>timestamp = now, method' = m, age = a, sex = s, scr_value = v, scr_unit = u,
              scr_mgdl = c,
              black = (if m = ''CKD-EPI 2009'' \<or> m = ''MDRD (IDMS)'' then Some b else None),
              weight_kg = (if m = ''Cockcroft-Gault'' then w else None),
              value' = x,
              value_unit = (if m = ''Cockcroft-Gault'' then unit_crcl else unit_egfr),
              stage = fst (gfr_stage_g1_g5 x), stage_text = snd (gfr_stage_g1_g5 x),
              notes' = (if m = ''CKD-EPI 2021'' then notes_ckd_epi_2021
                        else if m = ''CKD-EPI 2009'' then notes_ckd_epi_2009
                        else if m = ''MDRD (IDMS)'' then notes_mdrd
                        else notes_cockcroft_gault)\<rparr>"
    by (rule compute_Inr_cases)
  show "timestamp r = now" "method' r = m" "age r = a" "sex r = s" "scr_value r = v"
    "scr_unit r = u"
    "black r = (if m = ''CKD-EPI 2009'' \<or> m = ''MDRD (IDMS)'' then Some b else None)"
    "weight_kg r = (if m = ''Cockcroft-Gault'' then w else None)"
    "value_unit r = (if m = ''Cockcroft-Gault'' then unit_crcl else unit_egfr)"
    "stage r = fst (gfr_stage_g1_g5 (value' r))"
    "stage_text r = snd (gfr_stage_g1_g5 (value' r))"
    by (simp_all only: r KidneyResult.simps)
  from c show "scr_to_mgdl v u = Inr (scr_mgdl r)"
    by (simp only: r KidneyResult.simps)
qed

lemma compute_dispatch:
  assumes "compute_kidney_function now m a s v u b w = Inr r"
  shows "(m = ''CKD-EPI 2021'' \<and> egfr_ckd_epi_2021 (scr_mgdl r) a s = Inr (value' r))
       \<or> (m = ''CKD-EPI 2009'' \<and> egfr_ckd_epi_2009 (scr_mgdl r) a s b = Inr (value' r))
       \<or> (m = ''MDRD (IDMS)'' \<and> egfr_mdrd_idms (scr_mgdl r) a s b = Inr (value' r))
       \<or> (m = ''Cockcroft-Gault''
           \<and> (\<exists>k. w = Some k \<and> crcl_cockcroft_gault (scr_mgdl r) a s k = Inr (value' r)))"
proof -
  from assms obtain c x where
    r: "r = \<lparr>timestamp = now, method' = m, age = a, sex = s, scr_value = v, scr_unit = u,
              scr_mgdl = c,
              black = (if m = ''CKD-EPI 2009'' \<or> m = ''MDRD (IDMS)'' then Some b else None),
              weight_kg = (if m = ''Cockcroft-Gault'' then w else None),
              value' = x,
              value_unit = (if m = ''Cockcroft-Gault'' then unit_crcl else unit_egfr),
              stage = fst (gfr_stage_g1_g5 x), stage_text = snd (gfr_stage_g1_g5 x),
              notes' = (if m = ''CKD-EPI 2021'' then notes_ckd_epi_2021
                        else if m = ''CKD-EPI 2009'' then notes_ckd_epi_2009
                        else if m = ''MDRD (IDMS)'' then notes_mdrd
                        else notes_cockcroft_gault)\<rparr>"
    and d: "(m = ''CKD-EPI 2021'' \<and> egfr_ckd_epi_2021 c a s = Inr x)
         \<or> (m = ''CKD-EPI 2009'' \<and> egfr_ckd_epi_2009 c a s b = Inr x)
         \<or> (m = ''MDRD (IDMS)'' \<and> egfr_mdrd_idms c a s b = Inr x)
         \<or> (m = ''Cockcroft-Gault'' \<and> (\<exists>k. w = Some k \<and> crcl_cockcroft_gault c a s k = Inr x))"
    by (rule compute_Inr_cases)
  have "scr_mgdl r = c" "value' r = x" by (simp_all only: r KidneyResult.simps)
  with d show ?thesis by (simp only:)
qed

text \<open>
  Scenario B of the specification, evaluated: Cockcroft-Gault, age 60, female,
  creatinine 1.0 mg/dL, weight 60 kg.
\<close>

lemma scenario_B:
  "compute_kidney_function now ''Cockcroft-Gault'' 60 ''female'' 1 ''mg/dL'' False (Some 60) =
     Inr \<lparr>timestamp = now, method' = ''Cockcroft-Gault'', age = 60, sex = ''female'',
          scr_value = 1, scr_unit = ''mg/dL'', scr_mgdl = 1, black = None,
          weight_kg = Some 60, value' = 170 / 3, value_unit = unit_crcl, stage = ''G3a'',
          stage_text = text_G3a, notes' = notes_cockcroft_gault\<rparr>"
  by (simp add: compute_cockcroft_gault_weight scr_to_mgdl_def crcl_cockcroft_gault_adult
      gfr_stage_g1_g5_def)

text \<open>The three eGFR branches never read the weight.\<close>

lemma compute_ignores_weight:
  assumes "m = ''CKD-EPI 2021'' \<or> m = ''CKD-EPI 2009'' \<or> m = ''MDRD (IDMS)''"
  shows "compute_kidney_function now m a s v u b w = compute_kidney_function now m a s v u b None"
  using assms
  by (elim disjE) (simp_all only: compute_ckd_epi_2021 compute_ckd_epi_2009 compute_mdrd_idms)

subsection \<open>The ranged operators\<close>

lemma float_min_bound_pos: "0 < float_min_bound"
  by (simp add: float_min_bound_def)

lemma float_max_bound_gt_one: "1 < float_max_bound"
  by (simp add: float_max_bound_def)

lemma underflow_nonneg: "0 \<le> x \<Longrightarrow> 0 \<le> underflow x"
  by (simp add: underflow_def)

lemma underflow_large: "float_min_bound < x \<Longrightarrow> underflow x = x"
  using float_min_bound_pos by (auto simp: underflow_def)

lemma arithmetic_outcome_simps [simp]:
  "arithmetic_outcome (Inr x)"
  "arithmetic_outcome (Inl ZeroDivisionError)"
  "arithmetic_outcome (Inl OverflowError)"
  "\<not> arithmetic_outcome (Inl (ValueError msg))"
  "\<not> arithmetic_outcome (Inl ComplexResult)"
  by (simp_all add: arithmetic_outcome_def)

lemma arithmetic_outcome_and_then:
  assumes "arithmetic_outcome x" and "\<And>v. x = Inr v \<Longrightarrow> arithmetic_outcome (k v)"
  shows "arithmetic_outcome (and_then x k)"
proof (cases x)
  case (Inl e)
  with assms(1) show ?thesis by (cases e) simp_all
next
  case (Inr v)
  with assms(2) [of v] show ?thesis by simp
qed

lemma arithmetic_outcome_cases:
  assumes "arithmetic_outcome r"
  obtains x where "r = Inr x" | "r = Inl ZeroDivisionError" | "r = Inl OverflowError"
proof (cases r)
  case (Inl e)
  with assms that show thesis by (cases e) simp_all
next
  case (Inr x)
  with that show thesis by simp
qed

lemma int_to_float_outcome: "arithmetic_outcome (int_to_float n)"
  by (simp add: int_to_float_def)

lemma int_to_float_Inr: "int_to_float n = Inr x \<Longrightarrow> x = real_of_int n"
  by (simp add: int_to_float_def split: if_splits)

lemma int_to_float_in_range:
  "0 \<le> n \<Longrightarrow> real_of_int n < float_max_bound \<Longrightarrow> int_to_float n = Inr (real_of_int n)"
  by (simp add: int_to_float_def)

lemma float_div_ranged_outcome: "arithmetic_outcome (float_div_ranged x y)"
  by (simp add: float_div_ranged_def float_div_def)

lemma float_div_ranged_nonzero: "y \<noteq> 0 \<Longrightarrow> float_div_ranged x y = Inr (underflow (x / y))"
  by (simp add: float_div_ranged_def float_div_def)

lemma float_div_ranged_Inr_nonneg:
  "float_div_ranged x y = Inr q \<Longrightarrow> 0 \<le> x \<Longrightarrow> 0 \<le> y \<Longrightarrow> 0 \<le> q"
  by (auto simp: float_div_ranged_def float_div_def underflow_def split: if_splits)

lemma float_pow_ranged_outcome: "0 \<le> x \<Longrightarrow> arithmetic_outcome (float_pow_ranged x y)"
  by (simp add: float_pow_ranged_def float_pow_def)

lemma float_pow_ranged_in_range:
  assumes "0 < x" and "x powr y < float_max_bound"
  shows "float_pow_ranged x y = Inr (underflow (x powr y))"
  using assms by (simp add: float_pow_ranged_def float_pow_pos)

lemma float_pow_ranged_small:
  assumes "0 < x" and "x powr y \<le> 1"
  shows "float_pow_ranged x y = Inr (underflow (x powr y))"
  using assms float_max_bound_gt_one by (intro float_pow_ranged_in_range) simp_all

lemma powr_ge_one_nonpos:
  fixes x :: real
  assumes "1 \<le> x" and "y \<le> 0"
  shows "x powr y \<le> 1"
proof -
  from assms have "x powr y \<le> 1 powr y" by (intro powr_mono2') simp_all
  then show ?thesis by simp
qed

lemma float_min_bound_powr: "float_min_bound = 2 powr (- 1075)"
proof -
  have "(2::real) powr 1075 = 2 ^ 1075" by (rule powr_numeral) simp
  then have "(2::real) powr (- 1075) = 1 / 2 ^ 1075"
    by (simp only: powr_minus divide_inverse mult_1)
  then show ?thesis by (simp only: float_min_bound_def)
qed

lemma powr_above_min_bound:
  assumes "float_min_bound < x" and "x \<le> 1" and "- (1 / 2) \<le> y" and "y \<le> 0"
  shows "x powr y < float_max_bound"
proof -
  have "0 < float_min_bound" by (rule float_min_bound_pos)
  with assms have "x powr y \<le> float_min_bound powr y"
    by (intro powr_mono2') simp_all
  also have "\<dots> = 2 powr (- 1075 * y)" by (simp only: float_min_bound_powr powr_powr)
  also have "\<dots> \<le> 2 powr 538"
  proof (rule powr_mono)
    from assms(3) show "- 1075 * y \<le> 538" by linarith
    show "(1::real) \<le> 2" by simp
  qed
  also have "(2::real) powr 538 = 2 ^ 538" by (rule powr_numeral) simp
  also have "(2::real) ^ 538 < float_max_bound" by (simp add: float_max_bound_def)
  finally show ?thesis .
qed

subsection \<open>The ranged equations: the checks, the possible outcomes, the return in range\<close>

lemma scr_to_mgdl_ranged_nonpos:
  "v \<le> 0 \<Longrightarrow> scr_to_mgdl_ranged v u = Inl (ValueError msg_creatinine)"
  by (simp add: scr_to_mgdl_ranged_def)

lemma scr_to_mgdl_ranged_pos:
  "0 < v \<Longrightarrow> scr_to_mgdl_ranged v u = Inr (if u = ''umol/L'' then underflow (v / 88.4) else v)"
  by (simp add: scr_to_mgdl_ranged_def float_div_ranged_nonzero)

lemma egfr_ckd_epi_2021_ranged_minor:
  "a < 18 \<Longrightarrow> egfr_ckd_epi_2021_ranged c a s = Inl (ValueError msg_ckd_epi_2021_adult)"
  by (simp add: egfr_ckd_epi_2021_ranged_def)

lemma egfr_ckd_epi_2009_ranged_minor:
  "a < 18 \<Longrightarrow> egfr_ckd_epi_2009_ranged c a s b = Inl (ValueError msg_ckd_epi_2009_adult)"
  by (simp add: egfr_ckd_epi_2009_ranged_def)

lemma egfr_mdrd_idms_ranged_minor:
  "a < 18 \<Longrightarrow> egfr_mdrd_idms_ranged c a s b = Inl (ValueError msg_mdrd_adult)"
  by (simp add: egfr_mdrd_idms_ranged_def)

lemma crcl_cockcroft_gault_ranged_minor:
  "a < 18 \<Longrightarrow> crcl_cockcroft_gault_ranged c a s k = Inl (ValueError msg_cockcroft_gault_adult)"
  by (simp add: crcl_cockcroft_gault_ranged_def)

lemma crcl_cockcroft_gault_ranged_weight:
  "18 \<le> a \<Longrightarrow> k \<le> 0 \<Longrightarrow>
     crcl_cockcroft_gault_ranged c a s k = Inl (ValueError msg_weight_positive)"
  by (simp add: crcl_cockcroft_gault_ranged_def)

lemma age_power_outcome:
  assumes "0 < x"
  shows "arithmetic_outcome (and_then (int_to_float a) (float_pow_ranged x))"
proof (rule arithmetic_outcome_and_then)
  show "arithmetic_outcome (int_to_float a)" by (rule int_to_float_outcome)
next
  fix v from assms show "arithmetic_outcome (float_pow_ranged x v)"
    by (intro float_pow_ranged_outcome) simp
qed

lemma ckd_epi_body_outcome:
  fixes k al e2 base ff :: real
  assumes "0 \<le> c" and "0 < k" and "0 < base"
  shows "arithmetic_outcome
          (and_then (float_div_ranged c k) (\<lambda>ratio.
             and_then (float_pow_ranged (min ratio 1) al) (\<lambda>p1.
             and_then (float_pow_ranged (max ratio 1) e2) (\<lambda>p2.
             and_then (and_then (int_to_float a) (float_pow_ranged base)) (\<lambda>p3.
             Inr (f p1 p2 p3))))))"
proof (rule arithmetic_outcome_and_then)
  show "arithmetic_outcome (float_div_ranged c k)" by (rule float_div_ranged_outcome)
next
  fix ratio assume r: "float_div_ranged c k = Inr ratio"
  from assms(2) have "0 \<le> k" by simp
  with r assms(1) have "0 \<le> ratio" by (rule float_div_ranged_Inr_nonneg)
  then have mn: "0 \<le> min ratio 1" by simp
  have mx: "0 \<le> max ratio 1" by simp
  show "arithmetic_outcome
          (and_then (float_pow_ranged (min ratio 1) al) (\<lambda>p1.
             and_then (float_pow_ranged (max ratio 1) e2) (\<lambda>p2.
             and_then (and_then (int_to_float a) (float_pow_ranged base)) (\<lambda>p3.
             Inr (f p1 p2 p3)))))"
  proof (rule arithmetic_outcome_and_then)
    from mn show "arithmetic_outcome (float_pow_ranged (min ratio 1) al)"
      by (rule float_pow_ranged_outcome)
  next
    fix p1
    show "arithmetic_outcome
            (and_then (float_pow_ranged (max ratio 1) e2) (\<lambda>p2.
             and_then (and_then (int_to_float a) (float_pow_ranged base)) (\<lambda>p3.
             Inr (f p1 p2 p3))))"
    proof (rule arithmetic_outcome_and_then)
      from mx show "arithmetic_outcome (float_pow_ranged (max ratio 1) e2)"
        by (rule float_pow_ranged_outcome)
    next
      fix p2
      show "arithmetic_outcome
              (and_then (and_then (int_to_float a) (float_pow_ranged base)) (\<lambda>p3.
               Inr (f p1 p2 p3)))"
      proof (rule arithmetic_outcome_and_then)
        from assms(3) show "arithmetic_outcome (and_then (int_to_float a) (float_pow_ranged base))"
          by (rule age_power_outcome)
      next
        fix p3 show "arithmetic_outcome (Inr (f p1 p2 p3))" by simp
      qed
    qed
  qed
qed

lemma egfr_ckd_epi_2021_ranged_outcome:
  assumes "18 \<le> a" and "0 \<le> c"
  shows "arithmetic_outcome (egfr_ckd_epi_2021_ranged c a s)"
  using assms by (simp add: egfr_ckd_epi_2021_ranged_def Let_def ckd_epi_body_outcome)

lemma egfr_ckd_epi_2009_ranged_outcome:
  assumes "18 \<le> a" and "0 \<le> c"
  shows "arithmetic_outcome (egfr_ckd_epi_2009_ranged c a s b)"
  using assms by (simp add: egfr_ckd_epi_2009_ranged_def Let_def ckd_epi_body_outcome)

lemma mdrd_body_outcome:
  fixes e1 e2 :: real
  assumes "0 \<le> a" and "0 \<le> c"
  shows "arithmetic_outcome
          (and_then (float_pow_ranged c e1) (\<lambda>p1.
           and_then (and_then (int_to_float a) (\<lambda>x. float_pow_ranged x e2)) (\<lambda>p2.
           Inr (f p1 p2))))"
proof (rule arithmetic_outcome_and_then)
  from assms(2) show "arithmetic_outcome (float_pow_ranged c e1)"
    by (rule float_pow_ranged_outcome)
next
  fix p1
  show "arithmetic_outcome
          (and_then (and_then (int_to_float a) (\<lambda>x. float_pow_ranged x e2)) (\<lambda>p2.
           Inr (f p1 p2)))"
  proof (rule arithmetic_outcome_and_then)
    show "arithmetic_outcome (and_then (int_to_float a) (\<lambda>x. float_pow_ranged x e2))"
    proof (rule arithmetic_outcome_and_then)
      show "arithmetic_outcome (int_to_float a)" by (rule int_to_float_outcome)
    next
      fix x assume "int_to_float a = Inr x"
      then have "x = real_of_int a" by (rule int_to_float_Inr)
      with assms(1) have "0 \<le> x" by simp
      then show "arithmetic_outcome (float_pow_ranged x e2)"
        by (rule float_pow_ranged_outcome)
    qed
  next
    fix p2 show "arithmetic_outcome (Inr (f p1 p2))" by simp
  qed
qed

lemma egfr_mdrd_idms_ranged_outcome:
  assumes "18 \<le> a" and "0 \<le> c"
  shows "arithmetic_outcome (egfr_mdrd_idms_ranged c a s b)"
  using assms by (simp add: egfr_mdrd_idms_ranged_def Let_def mdrd_body_outcome)

lemma crcl_cockcroft_gault_ranged_outcome:
  assumes "18 \<le> a" and "0 < k"
  shows "arithmetic_outcome (crcl_cockcroft_gault_ranged c a s k)"
proof -
  have "arithmetic_outcome
          (and_then (int_to_float a) (\<lambda>x.
           and_then (float_div_ranged ((140.0 - x) * k) (72.0 * c)) (\<lambda>crcl.
           if s = ''female'' then Inr (crcl * 0.85) else Inr crcl)))"
  proof (rule arithmetic_outcome_and_then)
    show "arithmetic_outcome (int_to_float a)" by (rule int_to_float_outcome)
  next
    fix x
    show "arithmetic_outcome
            (and_then (float_div_ranged ((140.0 - x) * k) (72.0 * c)) (\<lambda>crcl.
             if s = ''female'' then Inr (crcl * 0.85) else Inr crcl))"
      by (rule arithmetic_outcome_and_then) (simp_all add: float_div_ranged_outcome)
  qed
  with assms show ?thesis by (simp only: crcl_cockcroft_gault_ranged_def) simp
qed

lemma float_min_bound_lt_one: "float_min_bound < 1"
  by (simp add: float_min_bound_def)

lemma ckd_epi_body_returns:
  fixes k al e2 base :: real
  assumes c: "float_min_bound < c" and k: "0 < k" "k \<le> 1"
    and al: "- (1 / 2) \<le> al" "al \<le> 0" and e2: "e2 \<le> 0"
    and base: "0 < base" "base \<le> 1"
    and a: "0 \<le> a" "real_of_int a < float_max_bound"
  shows "\<exists>x. and_then (float_div_ranged c k) (\<lambda>ratio.
             and_then (float_pow_ranged (min ratio 1) al) (\<lambda>p1.
             and_then (float_pow_ranged (max ratio 1) e2) (\<lambda>p2.
             and_then (and_then (int_to_float a) (float_pow_ranged base)) (\<lambda>p3.
             Inr (f p1 p2 p3))))) = Inr x"
proof -
  from float_min_bound_pos c have cpos: "0 < c" by simp
  with k have "c \<le> c / k" by (simp add: pos_le_divide_eq mult_left_le)
  with c have r: "float_min_bound < c / k" by simp
  with k have 1: "float_div_ranged c k = Inr (c / k)"
    by (simp add: float_div_ranged_nonzero underflow_large)
  from r float_min_bound_lt_one have mn: "float_min_bound < min (c / k) 1" "min (c / k) 1 \<le> 1"
    by simp_all
  from mn float_min_bound_pos have mnpos: "0 < min (c / k) 1" by linarith
  from mn al have "min (c / k) 1 powr al < float_max_bound" by (rule powr_above_min_bound)
  with mnpos have 2: "float_pow_ranged (min (c / k) 1) al = Inr (underflow (min (c / k) 1 powr al))"
    by (rule float_pow_ranged_in_range)
  have "max (c / k) 1 powr e2 \<le> 1" using e2 by (intro powr_ge_one_nonpos) simp_all
  then have 3: "float_pow_ranged (max (c / k) 1) e2 = Inr (underflow (max (c / k) 1 powr e2))"
    by (intro float_pow_ranged_small) simp_all
  from a have 4: "int_to_float a = Inr (real_of_int a)" by (rule int_to_float_in_range)
  from base a(1) have "base powr real_of_int a \<le> 1" by (intro powr_le1) simp_all
  with base(1) have 5: "float_pow_ranged base (real_of_int a)
      = Inr (underflow (base powr real_of_int a))"
    by (rule float_pow_ranged_small)
  show ?thesis by (simp add: 1 2 3 4 5)
qed

lemma mdrd_body_returns:
  fixes e1 e2 :: real
  assumes c: "0 < c" "c powr e1 < float_max_bound" and e2: "e2 \<le> 0"
    and a: "1 \<le> a" "real_of_int a < float_max_bound"
  shows "\<exists>x. and_then (float_pow_ranged c e1) (\<lambda>p1.
           and_then (and_then (int_to_float a) (\<lambda>x. float_pow_ranged x e2)) (\<lambda>p2.
           Inr (f p1 p2))) = Inr x"
proof -
  from c have 1: "float_pow_ranged c e1 = Inr (underflow (c powr e1))"
    by (rule float_pow_ranged_in_range)
  from a have 2: "int_to_float a = Inr (real_of_int a)" by (intro int_to_float_in_range) simp_all
  from a(1) e2 have "real_of_int a powr e2 \<le> 1" by (intro powr_ge_one_nonpos) simp_all
  with a(1) have 3: "float_pow_ranged (real_of_int a) e2
      = Inr (underflow (real_of_int a powr e2))"
    by (intro float_pow_ranged_small) simp_all
  show ?thesis by (simp add: 1 2 3)
qed

lemma egfr_ckd_epi_2021_ranged_returns:
  assumes "18 \<le> a" and "real_of_int a < float_max_bound" and "float_min_bound < c"
  shows "\<exists>x. egfr_ckd_epi_2021_ranged c a s = Inr x"
  using assms by (simp add: egfr_ckd_epi_2021_ranged_def Let_def ckd_epi_body_returns)

lemma egfr_ckd_epi_2009_ranged_returns:
  assumes "18 \<le> a" and "real_of_int a < float_max_bound" and "float_min_bound < c"
  shows "\<exists>x. egfr_ckd_epi_2009_ranged c a s b = Inr x"
  using assms by (simp add: egfr_ckd_epi_2009_ranged_def Let_def ckd_epi_body_returns)

lemma egfr_mdrd_idms_ranged_returns:
  assumes "18 \<le> a" and "real_of_int a < float_max_bound" and "0 < c"
    and "c powr (- 1.154) < float_max_bound"
  shows "\<exists>x. egfr_mdrd_idms_ranged c a s b = Inr x"
  using assms by (simp add: egfr_mdrd_idms_ranged_def Let_def mdrd_body_returns)

lemma crcl_cockcroft_gault_ranged_returns:
  assumes "18 \<le> a" and "real_of_int a < float_max_bound" and "0 < c" and "0 < k"
  shows "\<exists>x. crcl_cockcroft_gault_ranged c a s k = Inr x"
proof -
  from assms have "int_to_float a = Inr (real_of_int a)" by (intro int_to_float_in_range) simp_all
  with assms have "crcl_cockcroft_gault_ranged c a s k =
      Inr (if s = ''female''
           then underflow ((140.0 - real_of_int a) * k / (72.0 * c)) * 0.85
           else underflow ((140.0 - real_of_int a) * k / (72.0 * c)))"
    by (simp add: crcl_cockcroft_gault_ranged_def float_div_ranged_nonzero)
  then show ?thesis by (rule exI)
qed

subsection \<open>The ranged assembler\<close>

lemma compute_ranged_ckd_epi_2021:
  "compute_kidney_function_ranged now ''CKD-EPI 2021'' a s v u b w =
     and_then (scr_to_mgdl_ranged v u) (\<lambda>c.
     and_then (egfr_ckd_epi_2021_ranged c a s) (\<lambda>x.
       Inr \<lparr>timestamp = now, method' = ''CKD-EPI 2021'', age = a, sex = s, scr_value = v,
            scr_unit = u, scr_mgdl = c, black = None, weight_kg = None, value' = x,
            value_unit = unit_egfr, stage = fst (gfr_stage_g1_g5 x),
            stage_text = snd (gfr_stage_g1_g5 x), notes' = notes_ckd_epi_2021\<rparr>))"
  unfolding compute_kidney_function_ranged_def
  by (simp add: and_then_def case_prod_beta split: sum.splits)

lemma compute_ranged_ckd_epi_2009:
  "compute_kidney_function_ranged now ''CKD-EPI 2009'' a s v u b w =
     and_then (scr_to_mgdl_ranged v u) (\<lambda>c.
     and_then (egfr_ckd_epi_2009_ranged c a s b) (\<lambda>x.
       Inr \<lparr>timestamp = now, method' = ''CKD-EPI 2009'', age = a, sex = s, scr_value = v,
            scr_unit = u, scr_mgdl = c, black = Some b, weight_kg = None, value' = x,
            value_unit = unit_egfr, stage = fst (gfr_stage_g1_g5 x),
            stage_text = snd (gfr_stage_g1_g5 x), notes' = notes_ckd_epi_2009\<rparr>))"
  unfolding compute_kidney_function_ranged_def
  by (simp add: and_then_def case_prod_beta split: sum.splits)

lemma compute_ranged_mdrd_idms:
  "compute_kidney_function_ranged now ''MDRD (IDMS)'' a s v u b w =
     and_then (scr_to_mgdl_ranged v u) (\<lambda>c.
     and_then (egfr_mdrd_idms_ranged c a s b) (\<lambda>x.
       Inr \<lparr>timestamp = now, method' = ''MDRD (IDMS)'', age = a, sex = s, scr_value = v,
            scr_unit = u, scr_mgdl = c, black = Some b, weight_kg = None, value' = x,
            value_unit = unit_egfr, stage = fst (gfr_stage_g1_g5 x),
            stage_text = snd (gfr_stage_g1_g5 x), notes' = notes_mdrd\<rparr>))"
  unfolding compute_kidney_function_ranged_def
  by (simp add: and_then_def case_prod_beta split: sum.splits)

lemma compute_ranged_cockcroft_gault_weight:
  "compute_kidney_function_ranged now ''Cockcroft-Gault'' a s v u b (Some k) =
     and_then (scr_to_mgdl_ranged v u) (\<lambda>c.
     and_then (crcl_cockcroft_gault_ranged c a s k) (\<lambda>x.
       Inr \<lparr>timestamp = now, method' = ''Cockcroft-Gault'', age = a, sex = s, scr_value = v,
            scr_unit = u, scr_mgdl = c, black = None, weight_kg = Some k, value' = x,
            value_unit = unit_crcl, stage = fst (gfr_stage_g1_g5 x),
            stage_text = snd (gfr_stage_g1_g5 x), notes' = notes_cockcroft_gault\<rparr>))"
  unfolding compute_kidney_function_ranged_def
  by (simp add: and_then_def case_prod_beta split: sum.splits)

lemma compute_ranged_cockcroft_gault_no_weight:
  "compute_kidney_function_ranged now ''Cockcroft-Gault'' a s v u b None =
     and_then (scr_to_mgdl_ranged v u) (\<lambda>c. Inl (ValueError msg_weight_required))"
  unfolding compute_kidney_function_ranged_def
  by (simp add: and_then_def split: sum.splits)

lemma compute_ranged_unrecognized:
  assumes "m \<noteq> ''CKD-EPI 2021''" and "m \<noteq> ''CKD-EPI 2009''" and "m \<noteq> ''MDRD (IDMS)''"
    and "m \<noteq> ''Cockcroft-Gault''"
  shows "compute_kidney_function_ranged now m a s v u b w =
           and_then (scr_to_mgdl_ranged v u) (\<lambda>c. Inl (ValueError msg_invalid_method))"
  using assms unfolding compute_kidney_function_ranged_def
  by (simp add: and_then_def split: sum.splits)

lemma compute_ranged_nonpos:
  assumes "v \<le> 0"
  shows "compute_kidney_function_ranged now m a s v u b w = Inl (ValueError msg_creatinine)"
  using assms unfolding compute_kidney_function_ranged_def by (simp add: scr_to_mgdl_ranged_nonpos)

lemma compute_ranged_fails:
  assumes "v \<le> 0 \<or> a < 18
           \<or> (m = ''Cockcroft-Gault'' \<and> (w = None \<or> (\<exists>k. w = Some k \<and> k \<le> 0)))
           \<or> m \<notin> {''CKD-EPI 2021'', ''CKD-EPI 2009'', ''MDRD (IDMS)'', ''Cockcroft-Gault''}"
  shows "\<exists>msg. compute_kidney_function_ranged now m a s v u b w = Inl (ValueError msg)"
proof (cases "v \<le> 0")
  case True
  then show ?thesis by (simp add: compute_ranged_nonpos)
next
  case False
  then have c: "scr_to_mgdl_ranged v u = Inr (if u = ''umol/L'' then underflow (v / 88.4) else v)"
    by (simp add: scr_to_mgdl_ranged_pos)
  consider (ckd21) "m = ''CKD-EPI 2021''" | (ckd09) "m = ''CKD-EPI 2009''"
    | (mdrd) "m = ''MDRD (IDMS)''" | (cg) "m = ''Cockcroft-Gault''"
    | (other) "m \<noteq> ''CKD-EPI 2021''" "m \<noteq> ''CKD-EPI 2009''" "m \<noteq> ''MDRD (IDMS)''"
        "m \<noteq> ''Cockcroft-Gault''"
    by blast
  then show ?thesis
  proof cases
    case ckd21
    with assms False have "a < 18" by simp
    with ckd21 c show ?thesis by (simp add: compute_ranged_ckd_epi_2021 egfr_ckd_epi_2021_ranged_minor)
  next
    case ckd09
    with assms False have "a < 18" by simp
    with ckd09 c show ?thesis by (simp add: compute_ranged_ckd_epi_2009 egfr_ckd_epi_2009_ranged_minor)
  next
    case mdrd
    with assms False have "a < 18" by simp
    with mdrd c show ?thesis by (simp add: compute_ranged_mdrd_idms egfr_mdrd_idms_ranged_minor)
  next
    case cg
    show ?thesis
    proof (cases w)
      case None
      with cg c show ?thesis by (simp add: compute_ranged_cockcroft_gault_no_weight)
    next
      case (Some k)
      with assms False cg have "a < 18 \<or> k \<le> 0" by simp
      then have "\<exists>msg. crcl_cockcroft_gault_ranged (if u = ''umol/L'' then underflow (v / 88.4) else v) a s k
                         = Inl (ValueError msg)"
        by (cases "a < 18") (simp_all add: crcl_cockcroft_gault_ranged_minor crcl_cockcroft_gault_ranged_weight)
      with cg Some c show ?thesis by (auto simp: compute_ranged_cockcroft_gault_weight)
    qed
  next
    case other
    with c show ?thesis by (simp add: compute_ranged_unrecognized)
  qed
qed

lemma compute_ranged_arithmetic:
  assumes "0 < v" and "18 \<le> a"
    and "m = ''CKD-EPI 2021'' \<or> m = ''CKD-EPI 2009'' \<or> m = ''MDRD (IDMS)''
         \<or> (m = ''Cockcroft-Gault'' \<and> (\<exists>k. w = Some k \<and> 0 < k))"
  shows "arithmetic_outcome (compute_kidney_function_ranged now m a s v u b w)"
proof -
  define c where "c = (if u = ''umol/L'' then underflow (v / 88.4) else v)"
  have c: "scr_to_mgdl_ranged v u = Inr c"
    using assms(1) by (simp add: scr_to_mgdl_ranged_pos c_def)
  have "0 \<le> c" using assms(1) by (simp add: c_def underflow_nonneg)
  from assms(3) show ?thesis
  proof (elim disjE conjE exE)
    assume "m = ''CKD-EPI 2021''"
    with c egfr_ckd_epi_2021_ranged_outcome [OF assms(2) \<open>0 \<le> c\<close>, of s] show ?thesis
      by (simp add: compute_ranged_ckd_epi_2021 arithmetic_outcome_and_then)
  next
    assume "m = ''CKD-EPI 2009''"
    with c egfr_ckd_epi_2009_ranged_outcome [OF assms(2) \<open>0 \<le> c\<close>, of s b] show ?thesis
      by (simp add: compute_ranged_ckd_epi_2009 arithmetic_outcome_and_then)
  next
    assume "m = ''MDRD (IDMS)''"
    with c egfr_mdrd_idms_ranged_outcome [OF assms(2) \<open>0 \<le> c\<close>, of s b] show ?thesis
      by (simp add: compute_ranged_mdrd_idms arithmetic_outcome_and_then)
  next
    fix k assume "m = ''Cockcroft-Gault''" "w = Some k" "0 < k"
    with c crcl_cockcroft_gault_ranged_outcome [OF assms(2) \<open>0 < k\<close>, of c s] show ?thesis
      by (simp add: compute_ranged_cockcroft_gault_weight arithmetic_outcome_and_then)
  qed
qed

lemma compute_ranged_returns:
  assumes "0 < v" and "18 \<le> a"
    and "m = ''CKD-EPI 2021'' \<or> m = ''CKD-EPI 2009'' \<or> m = ''MDRD (IDMS)''
         \<or> (m = ''Cockcroft-Gault'' \<and> (\<exists>k. w = Some k \<and> 0 < k))"
    and age: "real_of_int a < float_max_bound"
    and least: "2 * float_min_bound \<le> v"
    and conv: "u = ''umol/L'' \<longrightarrow> float_min_bound < v / 88.4"
    and mdrd: "m = ''MDRD (IDMS)'' \<longrightarrow>
          (if u = ''umol/L'' then v / 88.4 else v) powr (- 1.154) < float_max_bound"
  shows "\<exists>r. compute_kidney_function_ranged now m a s v u b w = Inr r"
proof -
  define c where "c = (if u = ''umol/L'' then v / 88.4 else v)"
  from least float_min_bound_pos have "float_min_bound < v" by linarith
  with conv have cmin: "float_min_bound < c" by (simp add: c_def)
  with float_min_bound_pos have cpos: "0 < c" by linarith
  from conv have "(if u = ''umol/L'' then underflow (v / 88.4) else v) = c"
    by (simp add: c_def underflow_large)
  with assms(1) have c: "scr_to_mgdl_ranged v u = Inr c"
    by (simp add: scr_to_mgdl_ranged_pos)
  from assms(3) show ?thesis
  proof (elim disjE conjE exE)
    assume "m = ''CKD-EPI 2021''"
    with c egfr_ckd_epi_2021_ranged_returns [OF assms(2) age cmin, of s] show ?thesis
      by (auto simp: compute_ranged_ckd_epi_2021)
  next
    assume "m = ''CKD-EPI 2009''"
    with c egfr_ckd_epi_2009_ranged_returns [OF assms(2) age cmin, of s b] show ?thesis
      by (auto simp: compute_ranged_ckd_epi_2009)
  next
    assume m: "m = ''MDRD (IDMS)''"
    with mdrd have "c powr (- 1.154) < float_max_bound" by (simp add: c_def)
    from egfr_mdrd_idms_ranged_returns [OF assms(2) age cpos this, of s b] m c show ?thesis
      by (auto simp: compute_ranged_mdrd_idms)
  next
    fix k assume "m = ''Cockcroft-Gault''" "w = Some k" "0 < k"
    with c crcl_cockcroft_gault_ranged_returns [OF assms(2) age cpos \<open>0 < k\<close>, of s]
    show ?thesis
      by (auto simp: compute_ranged_cockcroft_gault_weight)
  qed
qed

text \<open>
  Three operations that leave the range: a power that overflows, a conversion of the
  least positive double (the double that the literal \<open>5e-324\<close> denotes) that rounds to
  zero, and an age too large for a double.
\<close>

lemma power_overflow_example: "float_pow_ranged (1 / 2 ^ 1000) (- 1.154) = Inl OverflowError"
proof -
  have "(2::real) powr 1000 = 2 ^ 1000" by (rule powr_numeral) simp
  then have "(1 / 2 ^ 1000 :: real) = 2 powr (- 1000)"
    by (simp only: powr_minus divide_inverse mult_1)
  then have "(1 / 2 ^ 1000 :: real) powr (- 1.154) = 2 powr (- 1000 * - 1.154)"
    by (simp only: powr_powr)
  also have "(- 1000 * - 1.154 :: real) = 1154" by simp
  also have "(2::real) powr 1154 = 2 ^ 1154" by (rule powr_numeral) simp
  finally have p: "(1 / 2 ^ 1000 :: real) powr (- 1.154) = 2 ^ 1154" .
  have "float_pow (1 / 2 ^ 1000) (- 1.154) = Inr ((1 / 2 ^ 1000) powr (- 1.154))"
    by (rule float_pow_pos) simp
  with p have "float_pow (1 / 2 ^ 1000) (- 1.154) = Inr (2 ^ 1154)" by (simp only:)
  moreover have "float_max_bound \<le> \<bar>2 ^ 1154\<bar>" by (simp add: float_max_bound_def)
  ultimately show ?thesis by (simp only: float_pow_ranged_def and_then_Inr if_True)
qed

lemma conversion_underflow_example: "scr_to_mgdl_ranged (1 / 2 ^ 1074) ''umol/L'' = Inr 0"
  by (simp add: scr_to_mgdl_ranged_def float_div_ranged_nonzero underflow_def
      float_min_bound_def)

lemma age_overflow_example: "int_to_float (10 ^ 400) = Inl OverflowError"
  by (simp add: int_to_float_def float_max_bound_def)

section \<open>The claims\<close>

text \<open>
  Claim C1. Whenever \<open>compute_kidney_function\<close> returns a record, the record's value is
  the result of the selected method's equation applied to the creatinine value converted
  to mg/dL, its stage code and stage text are the classification of that value, and its
  unit label is \<open>mL/min/1.73m\<close> with the superscript two for CKD-EPI 2021, CKD-EPI 2009
  and MDRD (IDMS), and \<open>mL/min\<close> for Cockcroft-Gault.
\<close>

theorem compute_result_value:
  assumes "compute_kidney_function now m a s v u b w = Inr r"
  shows "(\<exists>c. scr_to_mgdl v u = Inr c \<and>
           ((m = ''CKD-EPI 2021'' \<and> egfr_ckd_epi_2021 c a s = Inr (value' r)
               \<and> value_unit r = unit_egfr)
            \<or> (m = ''CKD-EPI 2009'' \<and> egfr_ckd_epi_2009 c a s b = Inr (value' r)
               \<and> value_unit r = unit_egfr)
            \<or> (m = ''MDRD (IDMS)'' \<and> egfr_mdrd_idms c a s b = Inr (value' r)
               \<and> value_unit r = unit_egfr)
            \<or> (m = ''Cockcroft-Gault''
               \<and> (\<exists>k. w = Some k \<and> crcl_cockcroft_gault c a s k = Inr (value' r))
               \<and> value_unit r = unit_crcl)))
       \<and> (stage r, stage_text r) = gfr_stage_g1_g5 (value' r)
       \<and> unit_egfr = ''mL/min/1.73m'' @ [CHR 0xC2, CHR 0xB2]
       \<and> unit_crcl = ''mL/min''"
proof -
  note f = compute_fields [OF assms]
  from compute_dispatch [OF assms] f(10)
  have "(m = ''CKD-EPI 2021'' \<and> egfr_ckd_epi_2021 (scr_mgdl r) a s = Inr (value' r)
               \<and> value_unit r = unit_egfr)
            \<or> (m = ''CKD-EPI 2009'' \<and> egfr_ckd_epi_2009 (scr_mgdl r) a s b = Inr (value' r)
               \<and> value_unit r = unit_egfr)
            \<or> (m = ''MDRD (IDMS)'' \<and> egfr_mdrd_idms (scr_mgdl r) a s b = Inr (value' r)
               \<and> value_unit r = unit_egfr)
            \<or> (m = ''Cockcroft-Gault''
               \<and> (\<exists>k. w = Some k \<and> crcl_cockcroft_gault (scr_mgdl r) a s k = Inr (value' r))
               \<and> value_unit r = unit_crcl)"
    by (elim disjE conjE) simp_all
  with f(7) have 1: "\<exists>c. scr_to_mgdl v u = Inr c \<and>
           ((m = ''CKD-EPI 2021'' \<and> egfr_ckd_epi_2021 c a s = Inr (value' r)
               \<and> value_unit r = unit_egfr)
            \<or> (m = ''CKD-EPI 2009'' \<and> egfr_ckd_epi_2009 c a s b = Inr (value' r)
               \<and> value_unit r = unit_egfr)
            \<or> (m = ''MDRD (IDMS)'' \<and> egfr_mdrd_idms c a s b = Inr (value' r)
               \<and> value_unit r = unit_egfr)
            \<or> (m = ''Cockcroft-Gault''
               \<and> (\<exists>k. w = Some k \<and> crcl_cockcroft_gault c a s k = Inr (value' r))
               \<and> value_unit r = unit_crcl))"
    by (intro exI [of _ "scr_mgdl r"] conjI)
  have 2: "(stage r, stage_text r) = gfr_stage_g1_g5 (value' r)"
    by (simp add: f(11,12))
  have 3: "unit_egfr = ''mL/min/1.73m'' @ [CHR 0xC2, CHR 0xB2]" "unit_crcl = ''mL/min''"
    by (simp_all add: unit_egfr_def unit_crcl_def)
  from 1 2 3 show ?thesis by (intro conjI)
qed

theorem compute_result_value_witness:
  "\<exists>r. compute_kidney_function ''2026-01-01 00:00:00'' ''Cockcroft-Gault'' 60 ''female'' 1
          ''mg/dL'' False (Some 60) = Inr r
       \<and> (\<exists>c. scr_to_mgdl 1 ''mg/dL'' = Inr c
              \<and> crcl_cockcroft_gault c 60 ''female'' 60 = Inr (value' r))
       \<and> value' r = 170 / 3
       \<and> value_unit r = ''mL/min''
       \<and> (stage r, stage_text r) = gfr_stage_g1_g5 (170 / 3)
       \<and> stage r = ''G3a''"
proof -
  let ?r = "\<lparr>timestamp = ''2026-01-01 00:00:00'', method' = ''Cockcroft-Gault'', age = 60,
          sex = ''female'', scr_value = 1, scr_unit = ''mg/dL'', scr_mgdl = 1, black = None,
          weight_kg = Some 60, value' = 170 / 3, value_unit = unit_crcl, stage = ''G3a'',
          stage_text = text_G3a, notes' = notes_cockcroft_gault\<rparr>"
  have h: "compute_kidney_function ''2026-01-01 00:00:00'' ''Cockcroft-Gault'' 60 ''female'' 1
          ''mg/dL'' False (Some 60) = Inr ?r"
    by (rule scenario_B)
  from compute_result_value [OF h] h show ?thesis
    by (intro exI [of _ ?r]) simp
qed

text \<open>
  Claim C2. For every creatinine value \<open>c > 0\<close>, \<open>scr_to_mgdl\<close> returns \<open>c\<close> unchanged for
  the unit \<open>mg/dL\<close> and \<open>c / 88.4\<close> for the unit \<open>umol/L\<close>. It raises a \<open>ValueError\<close>
  exactly when \<open>c \<le> 0\<close>, whatever the unit: zero and every negative value are rejected
  with the creatinine message, and every positive value is accepted, however large.
\<close>

theorem scr_to_mgdl_normalizes:
  "(0 < c \<longrightarrow> scr_to_mgdl c ''mg/dL'' = Inr c \<and> scr_to_mgdl c ''umol/L'' = Inr (c / 88.4))
   \<and> ((\<exists>msg. scr_to_mgdl c u = Inl (ValueError msg)) \<longleftrightarrow> c \<le> 0)
   \<and> (isl (scr_to_mgdl c u) \<longleftrightarrow> c \<le> 0)
   \<and> (c \<le> 0 \<longrightarrow> scr_to_mgdl c u = Inl (ValueError msg_creatinine))"
  by (simp add: scr_to_mgdl_def)

theorem scr_to_mgdl_normalizes_witness:
  "scr_to_mgdl 90 ''mg/dL'' = Inr 90 \<and> scr_to_mgdl 90 ''umol/L'' = Inr (90 / 88.4)
   \<and> scr_to_mgdl 0 ''mg/dL'' = Inl (ValueError msg_creatinine)
   \<and> scr_to_mgdl (- 1) ''umol/L'' = Inl (ValueError msg_creatinine)
   \<and> \<not> isl (scr_to_mgdl 100000 ''mg/dL'')"
  using scr_to_mgdl_normalizes [of 90] scr_to_mgdl_normalizes [of 0 "''mg/dL''"]
    scr_to_mgdl_normalizes [of "- 1" "''umol/L''"]
    scr_to_mgdl_normalizes [of 100000 "''mg/dL''"]
  by simp

text \<open>
  Claim C3. \<open>gfr_stage_g1_g5\<close> has no error path and returns exactly one bucket for every
  real \<open>v\<close>: G1 iff \<open>v \<ge> 90\<close>, G2 iff \<open>60 \<le> v < 90\<close>, G3a iff \<open>45 \<le> v < 60\<close>, G3b iff
  \<open>30 \<le> v < 45\<close>, G4 iff \<open>15 \<le> v < 30\<close> and G5 iff \<open>v < 15\<close>, zero and the negative
  values included. The function is total by its type (it returns a pair, not a sum);
  the six ranges partition the reals, so the six equivalences give exactly one bucket.
  The boundary values of the specification are evaluated at the end.
\<close>

theorem gfr_stage_g1_g5_buckets:
  "(gfr_stage_g1_g5 v = (''G1'', text_G1) \<longleftrightarrow> 90 \<le> v)
   \<and> (gfr_stage_g1_g5 v = (''G2'', text_G2) \<longleftrightarrow> 60 \<le> v \<and> v < 90)
   \<and> (gfr_stage_g1_g5 v = (''G3a'', text_G3a) \<longleftrightarrow> 45 \<le> v \<and> v < 60)
   \<and> (gfr_stage_g1_g5 v = (''G3b'', text_G3b) \<longleftrightarrow> 30 \<le> v \<and> v < 45)
   \<and> (gfr_stage_g1_g5 v = (''G4'', text_G4) \<longleftrightarrow> 15 \<le> v \<and> v < 30)
   \<and> (gfr_stage_g1_g5 v = (''G5'', text_G5) \<longleftrightarrow> v < 15)
   \<and> (fst (gfr_stage_g1_g5 v) = ''G1'' \<longleftrightarrow> 90 \<le> v)
   \<and> (fst (gfr_stage_g1_g5 v) = ''G2'' \<longleftrightarrow> 60 \<le> v \<and> v < 90)
   \<and> (fst (gfr_stage_g1_g5 v) = ''G3a'' \<longleftrightarrow> 45 \<le> v \<and> v < 60)
   \<and> (fst (gfr_stage_g1_g5 v) = ''G3b'' \<longleftrightarrow> 30 \<le> v \<and> v < 45)
   \<and> (fst (gfr_stage_g1_g5 v) = ''G4'' \<longleftrightarrow> 15 \<le> v \<and> v < 30)
   \<and> (fst (gfr_stage_g1_g5 v) = ''G5'' \<longleftrightarrow> v < 15)
   \<and> fst (gfr_stage_g1_g5 90) = ''G1'' \<and> fst (gfr_stage_g1_g5 89.999) = ''G2''
   \<and> fst (gfr_stage_g1_g5 60) = ''G2'' \<and> fst (gfr_stage_g1_g5 59.999) = ''G3a''
   \<and> fst (gfr_stage_g1_g5 45) = ''G3a'' \<and> fst (gfr_stage_g1_g5 30) = ''G3b''
   \<and> fst (gfr_stage_g1_g5 15) = ''G4'' \<and> fst (gfr_stage_g1_g5 14.999) = ''G5''
   \<and> fst (gfr_stage_g1_g5 0) = ''G5'' \<and> fst (gfr_stage_g1_g5 (- 3)) = ''G5''"
  by (simp add: gfr_stage_g1_g5_def)










text \<open>
  Claim C8, as the specification states it: the assembler enforces that a weight is
  present if and only if the method is Cockcroft-Gault, failing with the weight-required
  \<open>ValueError\<close> when the method is Cockcroft-Gault and the weight is absent. The code
  enforces one direction only. A weight supplied with CKD-EPI 2021 is not rejected: the
  call returns a record, whose weight field is empty. And with Cockcroft-Gault, no
  weight and a creatinine value of 0, the failure is the creatinine one, not the
  weight-required one.
\<close>

theorem weight_required_only_for_cockcroft_gault_counterexample:
  "\<not> isl (compute_kidney_function ''2026-01-01 00:00:00'' ''CKD-EPI 2021'' 40 ''male'' 1
            ''mg/dL'' False (Some 70))
   \<and> weight_kg (projr (compute_kidney_function ''2026-01-01 00:00:00'' ''CKD-EPI 2021'' 40
            ''male'' 1 ''mg/dL'' False (Some 70))) = None
   \<and> compute_kidney_function ''2026-01-01 00:00:00'' ''Cockcroft-Gault'' 40 ''male'' 0
            ''mg/dL'' False None = Inl (ValueError msg_creatinine)
   \<and> msg_creatinine \<noteq> msg_weight_required"
proof -
  let ?out = "compute_kidney_function ''2026-01-01 00:00:00'' ''CKD-EPI 2021'' 40 ''male'' 1
            ''mg/dL'' False (Some 70)"
  have "\<exists>r. ?out = Inr r" by (rule compute_succeeds) simp_all
  then obtain r where r: "?out = Inr r" ..
  from compute_fields(9) [OF r] have "weight_kg r = None" by simp
  with r have 1: "\<not> isl ?out" "weight_kg (projr ?out) = None" by simp_all
  have 2: "compute_kidney_function ''2026-01-01 00:00:00'' ''Cockcroft-Gault'' 40 ''male'' 0
            ''mg/dL'' False None = Inl (ValueError msg_creatinine)"
    by (rule compute_nonpos) simp
  have 3: "msg_creatinine \<noteq> msg_weight_required"
    by (simp add: msg_creatinine_def msg_weight_required_def)
  from 1 2 3 show ?thesis by (intro conjI)
qed

text \<open>
  Claim C8, amended. With the method Cockcroft-Gault, no weight and a creatinine value
  \<open>> 0\<close>, the assembler raises the weight-required \<open>ValueError\<close>, whatever the age. A
  weight supplied with one of the other three methods is not rejected but ignored: the
  outcome is the one of the call without a weight, and the weight field of a returned
  record is empty. A record returned for Cockcroft-Gault carries the supplied weight,
  which is present.
\<close>

theorem weight_required_only_for_cockcroft_gault:
  "(0 < v \<longrightarrow>
      compute_kidney_function now ''Cockcroft-Gault'' a s v u b None
        = Inl (ValueError msg_weight_required))
   \<and> (m \<in> {''CKD-EPI 2021'', ''CKD-EPI 2009'', ''MDRD (IDMS)''} \<longrightarrow>
        compute_kidney_function now m a s v u b (Some k)
          = compute_kidney_function now m a s v u b None)
   \<and> (m \<in> {''CKD-EPI 2021'', ''CKD-EPI 2009'', ''MDRD (IDMS)''}
        \<and> compute_kidney_function now m a s v u b w = Inr r \<longrightarrow> weight_kg r = None)
   \<and> (compute_kidney_function now ''Cockcroft-Gault'' a s v u b w = Inr r \<longrightarrow>
        w \<noteq> None \<and> weight_kg r = w)"
proof (intro conjI impI)
  assume "0 < v"
  then show "compute_kidney_function now ''Cockcroft-Gault'' a s v u b None
        = Inl (ValueError msg_weight_required)"
    by (simp add: compute_cockcroft_gault_no_weight scr_to_mgdl_pos)
next
  assume "m \<in> {''CKD-EPI 2021'', ''CKD-EPI 2009'', ''MDRD (IDMS)''}"
  then have "m = ''CKD-EPI 2021'' \<or> m = ''CKD-EPI 2009'' \<or> m = ''MDRD (IDMS)''"
    by (elim insertE emptyE) simp_all
  then show "compute_kidney_function now m a s v u b (Some k)
          = compute_kidney_function now m a s v u b None"
    by (rule compute_ignores_weight)
next
  assume "m \<in> {''CKD-EPI 2021'', ''CKD-EPI 2009'', ''MDRD (IDMS)''}
        \<and> compute_kidney_function now m a s v u b w = Inr r"
  then have m: "m \<in> {''CKD-EPI 2021'', ''CKD-EPI 2009'', ''MDRD (IDMS)''}"
    and r: "compute_kidney_function now m a s v u b w = Inr r" by simp_all
  from m have "m \<noteq> ''Cockcroft-Gault''" by (elim insertE emptyE) simp_all
  with compute_fields(9) [OF r] show "weight_kg r = None" by simp
next
  assume r: "compute_kidney_function now ''Cockcroft-Gault'' a s v u b w = Inr r"
  from compute_fields(9) [OF r] show "weight_kg r = w" by simp
  from compute_dispatch [OF r] show "w \<noteq> None" by auto
qed

theorem weight_required_only_for_cockcroft_gault_witness:
  "compute_kidney_function ''2026-01-01 00:00:00'' ''Cockcroft-Gault'' 17 ''male'' 1 ''mg/dL''
       False None = Inl (ValueError msg_weight_required)
   \<and> compute_kidney_function ''2026-01-01 00:00:00'' ''MDRD (IDMS)'' 50 ''male'' 1.2 ''mg/dL''
       True (Some 70)
     = compute_kidney_function ''2026-01-01 00:00:00'' ''MDRD (IDMS)'' 50 ''male'' 1.2 ''mg/dL''
       True None
   \<and> (\<exists>r. compute_kidney_function ''2026-01-01 00:00:00'' ''MDRD (IDMS)'' 50 ''male'' 1.2
             ''mg/dL'' True (Some 70) = Inr r \<and> weight_kg r = None)
   \<and> (\<exists>r. compute_kidney_function ''2026-01-01 00:00:00'' ''Cockcroft-Gault'' 60 ''female'' 1
             ''mg/dL'' False (Some 60) = Inr r \<and> weight_kg r = Some 60)"
proof -
  let ?t = "''2026-01-01 00:00:00''"
  have "\<exists>r. compute_kidney_function ?t ''MDRD (IDMS)'' 50 ''male'' 1.2 ''mg/dL'' True (Some 70)
          = Inr r"
    by (rule compute_succeeds) simp_all
  then obtain r1 where r1: "compute_kidney_function ?t ''MDRD (IDMS)'' 50 ''male'' 1.2
      ''mg/dL'' True (Some 70) = Inr r1" ..
  have "\<exists>r. compute_kidney_function ?t ''Cockcroft-Gault'' 60 ''female'' 1 ''mg/dL'' False
          (Some 60) = Inr r"
    by (simp add: scenario_B)
  then obtain r2 where r2: "compute_kidney_function ?t ''Cockcroft-Gault'' 60 ''female'' 1
      ''mg/dL'' False (Some 60) = Inr r2" ..
  note thm1 = weight_required_only_for_cockcroft_gault
    [where now = ?t and a = 17 and s = "''male''" and v = 1 and u = "''mg/dL''" and b = False]
  note thm2 = weight_required_only_for_cockcroft_gault
    [where now = ?t and m = "''MDRD (IDMS)''" and a = 50 and s = "''male''" and v = "1.2"
       and u = "''mg/dL''" and b = True and k = 70 and w = "Some 70" and r = r1]
  note thm3 = weight_required_only_for_cockcroft_gault
    [where now = ?t and a = 60 and s = "''female''" and v = 1 and u = "''mg/dL''"
       and b = False and w = "Some 60" and r = r2]
  from thm1 have a: "compute_kidney_function ?t ''Cockcroft-Gault'' 17 ''male'' 1 ''mg/dL''
       False None = Inl (ValueError msg_weight_required)"
    by simp
  from thm2 r1 have b: "compute_kidney_function ?t ''MDRD (IDMS)'' 50 ''male'' 1.2 ''mg/dL''
       True (Some 70)
     = compute_kidney_function ?t ''MDRD (IDMS)'' 50 ''male'' 1.2 ''mg/dL'' True None"
    and c: "weight_kg r1 = None"
    by simp_all
  from thm3 r2 have d: "weight_kg r2 = Some 60" by simp
  from a b c d r1 r2 show ?thesis by (intro conjI exI [of _ r1] exI [of _ r2])
qed

text \<open>
  Claim C9, as the specification states it: the returned record echoes every input,
  the race flag and the weight included. The code does not echo these two for every
  method. In scenario A of the specification (CKD-EPI 2021, the race flag at its default
  \<open>False\<close>) the record's race-flag field is empty, not \<open>False\<close>; and a weight of 70
  supplied with MDRD (IDMS) is not in the record.
\<close>

theorem compute_echoes_inputs_counterexample:
  "\<not> isl (compute_kidney_function ''2026-01-01 00:00:00'' ''CKD-EPI 2021'' 40 ''male'' 90
            ''umol/L'' False None)
   \<and> black (projr (compute_kidney_function ''2026-01-01 00:00:00'' ''CKD-EPI 2021'' 40
            ''male'' 90 ''umol/L'' False None)) \<noteq> Some False
   \<and> \<not> isl (compute_kidney_function ''2026-01-01 00:00:00'' ''MDRD (IDMS)'' 50 ''male'' 1.2
            ''mg/dL'' True (Some 70))
   \<and> weight_kg (projr (compute_kidney_function ''2026-01-01 00:00:00'' ''MDRD (IDMS)'' 50
            ''male'' 1.2 ''mg/dL'' True (Some 70))) \<noteq> Some 70"
proof -
  let ?A = "compute_kidney_function ''2026-01-01 00:00:00'' ''CKD-EPI 2021'' 40 ''male'' 90
            ''umol/L'' False None"
  let ?C = "compute_kidney_function ''2026-01-01 00:00:00'' ''MDRD (IDMS)'' 50 ''male'' 1.2
            ''mg/dL'' True (Some 70)"
  have "\<exists>r. ?A = Inr r" by (rule compute_succeeds) simp_all
  then obtain r1 where r1: "?A = Inr r1" ..
  have "\<exists>r. ?C = Inr r" by (rule compute_succeeds) simp_all
  then obtain r2 where r2: "?C = Inr r2" ..
  from compute_fields(8) [OF r1] have "black r1 = None" by simp
  with r1 have 1: "\<not> isl ?A" "black (projr ?A) \<noteq> Some False" by simp_all
  from compute_fields(9) [OF r2] have "weight_kg r2 = None" by simp
  with r2 have 2: "\<not> isl ?C" "weight_kg (projr ?C) \<noteq> Some 70" by simp_all
  from 1 2 show ?thesis by (intro conjI)
qed

text \<open>
  Claim C9, amended. A returned record carries the method, the age, the sex, the
  creatinine value and the creatinine unit of the call, and its normalized creatinine is
  the result of \<open>scr_to_mgdl\<close> on them. Its race-flag field is the supplied flag for
  CKD-EPI 2009 and MDRD (IDMS) and empty for the other two methods; its weight field is
  the supplied weight for Cockcroft-Gault and empty for the other three.
\<close>

theorem compute_echoes_inputs:
  assumes "compute_kidney_function now m a s v u b w = Inr r"
  shows "method' r = m \<and> age r = a \<and> sex r = s \<and> scr_value r = v \<and> scr_unit r = u
       \<and> scr_to_mgdl v u = Inr (scr_mgdl r)
       \<and> black r = (if m = ''CKD-EPI 2009'' \<or> m = ''MDRD (IDMS)'' then Some b else None)
       \<and> weight_kg r = (if m = ''Cockcroft-Gault'' then w else None)"
  using compute_fields [OF assms] by (intro conjI)

theorem compute_echoes_inputs_witness:
  "(\<exists>r. compute_kidney_function ''2026-01-01 00:00:00'' ''MDRD (IDMS)'' 50 ''male'' 1.2
          ''mg/dL'' True None = Inr r
        \<and> method' r = ''MDRD (IDMS)'' \<and> age r = 50 \<and> sex r = ''male'' \<and> scr_value r = 1.2
        \<and> scr_unit r = ''mg/dL'' \<and> scr_to_mgdl 1.2 ''mg/dL'' = Inr (scr_mgdl r)
        \<and> black r = Some True \<and> weight_kg r = None)
   \<and> (\<exists>r. compute_kidney_function ''2026-01-01 00:00:00'' ''Cockcroft-Gault'' 60 ''female'' 1
          ''mg/dL'' False (Some 60) = Inr r
        \<and> method' r = ''Cockcroft-Gault'' \<and> age r = 60 \<and> sex r = ''female''
        \<and> scr_value r = 1 \<and> scr_unit r = ''mg/dL''
        \<and> scr_to_mgdl 1 ''mg/dL'' = Inr (scr_mgdl r)
        \<and> black r = None \<and> weight_kg r = Some 60)"
proof -
  let ?t = "''2026-01-01 00:00:00''"
  have "\<exists>r. compute_kidney_function ?t ''MDRD (IDMS)'' 50 ''male'' 1.2 ''mg/dL'' True None
          = Inr r"
    by (rule compute_succeeds) simp_all
  then obtain r1 where r1: "compute_kidney_function ?t ''MDRD (IDMS)'' 50 ''male'' 1.2
      ''mg/dL'' True None = Inr r1" ..
  have "\<exists>r. compute_kidney_function ?t ''Cockcroft-Gault'' 60 ''female'' 1 ''mg/dL'' False
          (Some 60) = Inr r"
    by (simp add: scenario_B)
  then obtain r2 where r2: "compute_kidney_function ?t ''Cockcroft-Gault'' 60 ''female'' 1
      ''mg/dL'' False (Some 60) = Inr r2" ..
  from compute_echoes_inputs [OF r1] r1
  have 1: "\<exists>r. compute_kidney_function ?t ''MDRD (IDMS)'' 50 ''male'' 1.2
          ''mg/dL'' True None = Inr r
        \<and> method' r = ''MDRD (IDMS)'' \<and> age r = 50 \<and> sex r = ''male'' \<and> scr_value r = 1.2
        \<and> scr_unit r = ''mg/dL'' \<and> scr_to_mgdl 1.2 ''mg/dL'' = Inr (scr_mgdl r)
        \<and> black r = Some True \<and> weight_kg r = None"
    by (intro exI [of _ r1]) simp
  from compute_echoes_inputs [OF r2] r2
  have 2: "\<exists>r. compute_kidney_function ?t ''Cockcroft-Gault'' 60 ''female'' 1
          ''mg/dL'' False (Some 60) = Inr r
        \<and> method' r = ''Cockcroft-Gault'' \<and> age r = 60 \<and> sex r = ''female''
        \<and> scr_value r = 1 \<and> scr_unit r = ''mg/dL''
        \<and> scr_to_mgdl 1 ''mg/dL'' = Inr (scr_mgdl r)
        \<and> black r = None \<and> weight_kg r = Some 60"
    by (intro exI [of _ r2]) simp
  from 1 2 show ?thesis by (rule conjI)
qed

text \<open>
  Claim C10. When the creatinine value is \<open>\<le> 0\<close>, \<open>compute_kidney_function\<close> raises the
  creatinine \<open>ValueError\<close> whatever the other arguments are (an age below 18, a missing
  or non-positive weight, an unrecognized method): the conversion runs before the
  dispatch on the method and before every other check.
\<close>

theorem creatinine_checked_first:
  assumes "v \<le> 0"
  shows "compute_kidney_function now m a s v u b w = Inl (ValueError msg_creatinine)"
  using assms by (rule compute_nonpos)

theorem creatinine_checked_first_witness:
  "compute_kidney_function ''2026-01-01 00:00:00'' ''no such method'' 5 ''male'' 0
       ''mg/dL'' False None
     = Inl (ValueError msg_creatinine)
   \<and> compute_kidney_function ''2026-01-01 00:00:00'' ''Cockcroft-Gault'' 17 ''female'' (- 2)
       ''umol/L'' True (Some (- 1))
     = Inl (ValueError msg_creatinine)"
  using
    creatinine_checked_first [of 0 "''2026-01-01 00:00:00''" "''no such method''" 5
      "''male''" "''mg/dL''" False None]
    creatinine_checked_first [of "- 2" "''2026-01-01 00:00:00''" "''Cockcroft-Gault''" 17
      "''female''" "''umol/L''" True "Some (- 1)"]
  by simp

end
